theory Spec2Isabelle
  imports Complex_Main
begin

section \<open>Numbers, errors and tensors\<close>

text \<open>
  The layer of \<^verbatim>\<open>CWT/cwt.py\<close> computes with floating-point numbers; they are modelled
  here as real numbers, so rounding is absent and every ``within tolerance'' of the
  specification is an equality. Where Python or numpy raise (a division by a Python
  zero, the square root of a negative number turned into an integer, the maximum of an
  empty array) the model returns the error. Inside numpy and TensorFlow arithmetic a
  division by zero or the square root of a negative number gives an infinity or a NaN
  and no error; the reals have neither, so the kernels of the model are those of the
  program where the wavelet width, the sampling frequency and the scales are positive,
  and the theorems about kernel values assume that.
\<close>

datatype error = ValueError string | ZeroDivisionError

text \<open>
  A tensor is its shape and its elements by index. Only the indices inside the shape are
  meaningful.
\<close>

record tensor =
  shape :: "nat list"
  elems :: "nat list \<Rightarrow> real"

subsection \<open>The operations of the array backend that the layer calls\<close>

text \<open>
  Modelled from the spec: the tensor backend (transposition, axis insertion, stacking,
  concatenation, elementwise maps, slicing and the SAME-padded strided convolution
  \<^verbatim>\<open>tf.nn.conv2d\<close>) is a library outside the repository. The definitions below give
  each operation the meaning the specification assumes of it: ``SAME padding:
  convolution padding mode producing output length \<open>ceil(input_length / stride)\<close>''.
\<close>

definition index_of :: "nat list \<Rightarrow> nat \<Rightarrow> nat" where
  "index_of perm d = length (takeWhile (\<lambda>p. p \<noteq> d) perm)"

definition tf_transpose :: "tensor \<Rightarrow> nat list \<Rightarrow> tensor" where
  "tf_transpose a perm =
     \<lparr>shape = map (\<lambda>p. shape a ! p) perm,
      elems = (\<lambda>idx. elems a (map (\<lambda>d. idx ! index_of perm d) [0..<length perm]))\<rparr>"

definition tf_expand_dims :: "tensor \<Rightarrow> nat \<Rightarrow> tensor" where
  "tf_expand_dims a axis =
     \<lparr>shape = take axis (shape a) @ [1] @ drop axis (shape a),
      elems = (\<lambda>idx. elems a (take axis idx @ drop (Suc axis) idx))\<rparr>"

text \<open>\<^verbatim>\<open>tf.stack(vectors, axis=-1)\<close> of one-dimensional arrays of one length.\<close>

definition tf_stack_last :: "real list list \<Rightarrow> tensor" where
  "tf_stack_last vs =
     \<lparr>shape = [length (hd vs), length vs],
      elems = (\<lambda>idx. vs ! (idx ! 1) ! (idx ! 0))\<rparr>"

definition tmap :: "(real \<Rightarrow> real) \<Rightarrow> tensor \<Rightarrow> tensor" where
  "tmap f a = \<lparr>shape = shape a, elems = (\<lambda>idx. f (elems a idx))\<rparr>"

definition tmap2 :: "(real \<Rightarrow> real \<Rightarrow> real) \<Rightarrow> tensor \<Rightarrow> tensor \<Rightarrow> tensor" where
  "tmap2 f a b = \<lparr>shape = shape a, elems = (\<lambda>idx. f (elems a idx) (elems b idx))\<rparr>"

definition atan2 :: "real \<Rightarrow> real \<Rightarrow> real" where
  "atan2 y x =
     (if 0 < x then arctan (y / x)
      else if x < 0 \<and> 0 \<le> y then arctan (y / x) + pi
      else if x < 0 then arctan (y / x) - pi
      else if 0 < y then pi / 2
      else if y < 0 then - (pi / 2)
      else 0)"

definition tf_concat :: "tensor \<Rightarrow> tensor \<Rightarrow> nat \<Rightarrow> tensor" where
  "tf_concat a b axis =
     \<lparr>shape = (shape a)[axis := shape a ! axis + shape b ! axis],
      elems = (\<lambda>idx. if idx ! axis < shape a ! axis then elems a idx
                      else elems b (idx[axis := idx ! axis - shape a ! axis]))\<rparr>"

definition same_out_len :: "nat \<Rightarrow> nat \<Rightarrow> nat" where
  "same_out_len n s = (n + s - 1) div s"

definition same_pad_before :: "nat \<Rightarrow> nat \<Rightarrow> nat \<Rightarrow> nat" where
  "same_pad_before n f s = (((same_out_len n s - 1) * s + f) - n) div 2"

text \<open>
  The input has shape \<open>batch dimensions @ [height, width, channels]\<close>, the filters
  \<open>[filter height, filter width, channels, outputs]\<close>, the strides are
  \<open>[1, height stride, width stride, 1]\<close>. Taps that fall into the padding contribute 0.
\<close>

definition tf_nn_conv2d :: "tensor \<Rightarrow> tensor \<Rightarrow> nat list \<Rightarrow> tensor" where
  "tf_nn_conv2d input filters strides =
     (let r = length (shape input);
          H = shape input ! (r - 3); W = shape input ! (r - 2); C = shape input ! (r - 1);
          fh = shape filters ! 0; fw = shape filters ! 1; n_out = shape filters ! 3;
          sh = strides ! 1; sw = strides ! 2;
          ph = same_pad_before H fh sh; pw = same_pad_before W fw sw
      in \<lparr>shape = take (r - 3) (shape input) @ [same_out_len H sh, same_out_len W sw, n_out],
          elems = (\<lambda>idx.
            sum_list (map (\<lambda>dh.
              sum_list (map (\<lambda>dw.
                sum_list (map (\<lambda>c.
                  (let y = int (idx ! (r - 3) * sh + dh) - int ph;
                       x = int (idx ! (r - 2) * sw + dw) - int pw
                   in if 0 \<le> y \<and> y < int H \<and> 0 \<le> x \<and> x < int W
                      then elems input (take (r - 3) idx @ [nat y, nat x, c])
                           * elems filters [dh, dw, c, idx ! (r - 1)]
                      else 0)) [0..<C])) [0..<fw])) [0..<fh]))\<rparr>)"

text \<open>
  Python's slice \<^verbatim>\<open>[start:end]\<close> on an axis of length \<open>n\<close>: a negative bound counts
  from the end, both bounds are clamped to \<open>0..n\<close>, and \<open>None\<close> as the end is \<open>n\<close>.
  The result is the first kept position and the number of kept positions.
\<close>

definition slice_bound :: "nat \<Rightarrow> int \<Rightarrow> int" where
  "slice_bound n i = (if i < 0 then max (i + int n) 0 else min i (int n))"

definition slice_range :: "nat \<Rightarrow> int \<Rightarrow> int option \<Rightarrow> nat \<times> nat" where
  "slice_range n start end =
     (let lo = slice_bound n start;
          hi = (case end of None \<Rightarrow> int n | Some e \<Rightarrow> slice_bound n e)
      in (nat lo, nat (hi - lo)))"

text \<open>The indexing \<^verbatim>\<open>a[:, :, 0, start:end, :]\<close> of a tensor of rank 5.\<close>

definition crop_axis3 :: "tensor \<Rightarrow> int \<Rightarrow> int option \<Rightarrow> tensor" where
  "crop_axis3 a start end =
     (let (lo, len) = slice_range (shape a ! 3) start end
      in \<lparr>shape = [shape a ! 0, shape a ! 1, len, shape a ! 4],
          elems = (\<lambda>idx. elems a [idx ! 0, idx ! 1, 0, lo + idx ! 2, idx ! 3])\<rparr>)"

section \<open>The layer\<close>

text \<open>
  \<^verbatim>\<open>ComplexMorletCWT.__init__\<close> sets its own attributes first and then calls the
  constructor of \<^verbatim>\<open>ContinuousWaveletTransform\<close>, which sets the remaining attributes and
  builds the wavelet bank from the attributes set so far. The record of the subclass's
  attributes is therefore the parent record, and the whole object extends it.
\<close>

record morlet_params =
  initial_wavelet_width :: real
  fs :: real
  lower_freq :: real
  upper_freq :: real
  size_factor :: real
  trainable :: bool
  scales :: "real list"
  frequencies :: "real list"
  wavelet_width :: real

record ComplexMorletCWT = morlet_params +
  n_scales :: int
  border_crop :: int
  stride :: int
  outputformat :: string
  data_format :: string
  real_part :: tensor
  imaginary_part :: tensor

subsection \<open>\<^verbatim>\<open>_build_wavelet_bank\<close>\<close>

text \<open>Python's \<^verbatim>\<open>int(x)\<close> of a float rounds toward zero.\<close>

definition py_int :: "real \<Rightarrow> int" where
  "py_int x = (if 0 \<le> x then \<lfloor>x\<rfloor> else \<lceil>x\<rceil>)"

definition truncation_size :: "'a morlet_params_scheme \<Rightarrow> real" where
  "truncation_size self =
     Max (set (scales self)) * sqrt (4.5 * initial_wavelet_width self) * fs self"

definition one_side :: "'a morlet_params_scheme \<Rightarrow> int" where
  "one_side self = py_int (size_factor self * truncation_size self)"

definition kernel_size :: "'a morlet_params_scheme \<Rightarrow> int" where
  "kernel_size self = 2 * one_side self + 1"

definition k_array :: "'a morlet_params_scheme \<Rightarrow> real list" where
  "k_array self =
     map (\<lambda>i. real_of_int (int i - one_side self)) [0..<nat (kernel_size self)]"

definition t_array :: "'a morlet_params_scheme \<Rightarrow> real list" where
  "t_array self = map (\<lambda>k. k / fs self) (k_array self)"

definition norm_constant :: "'a morlet_params_scheme \<Rightarrow> real \<Rightarrow> real" where
  "norm_constant self scale = sqrt (pi * wavelet_width self) * scale * fs self / 2"

definition kernel_base :: "'a morlet_params_scheme \<Rightarrow> real \<Rightarrow> real \<Rightarrow> real" where
  "kernel_base self scale t =
     (let scaled_t = t / scale;
          exp_term = exp (- (scaled_t ^ 2) / wavelet_width self)
      in exp_term / norm_constant self scale)"

definition kernel_real :: "'a morlet_params_scheme \<Rightarrow> real \<Rightarrow> real list" where
  "kernel_real self scale =
     map (\<lambda>t. kernel_base self scale t * cos (2 * pi * (t / scale))) (t_array self)"

definition kernel_imag :: "'a morlet_params_scheme \<Rightarrow> real \<Rightarrow> real list" where
  "kernel_imag self scale =
     map (\<lambda>t. kernel_base self scale t * sin (2 * pi * (t / scale))) (t_array self)"

text \<open>
  \<^verbatim>\<open>self.scales.max()\<close> raises on an empty array, and \<^verbatim>\<open>np.sqrt\<close> of a negative
  number is NaN, which \<^verbatim>\<open>int\<close> refuses to convert.
\<close>

definition build_wavelet_bank ::
  "'a morlet_params_scheme \<Rightarrow> error + (tensor \<times> tensor)" where
  "build_wavelet_bank self =
     (if scales self = [] then
        Inl (ValueError ''zero-size array to reduction operation maximum which has no identity'')
      else if 4.5 * initial_wavelet_width self < 0 then
        Inl (ValueError ''cannot convert float NaN to integer'')
      else
        let wavelet_bank_real = map (kernel_real self) (scales self);
            wavelet_bank_imag = map (kernel_imag self) (scales self);
            wavelet_bank_real = tf_stack_last wavelet_bank_real;
            wavelet_bank_imag = tf_stack_last wavelet_bank_imag;
            wavelet_bank_real = tf_expand_dims wavelet_bank_real 0;
            wavelet_bank_imag = tf_expand_dims wavelet_bank_imag 0;
            wavelet_bank_real = tf_expand_dims wavelet_bank_real 2;
            wavelet_bank_imag = tf_expand_dims wavelet_bank_imag 2
        in Inr (wavelet_bank_real, wavelet_bank_imag))"

subsection \<open>The constructors\<close>

definition ContinuousWaveletTransform_init ::
  "morlet_params \<Rightarrow> int \<Rightarrow> int \<Rightarrow> int \<Rightarrow> string \<Rightarrow> string \<Rightarrow> string
     \<Rightarrow> error + ComplexMorletCWT" where
  "ContinuousWaveletTransform_init self n_scales' border_crop' stride' name'
       outputformat' data_format' =
     (case build_wavelet_bank self of
        Inl e \<Rightarrow> Inl e
      | Inr (re, im) \<Rightarrow>
          Inr (morlet_params.extend self
                 (ComplexMorletCWT.fields n_scales' border_crop' stride' outputformat'
                    data_format' re im)))"

definition ComplexMorletCWT_init ::
  "real \<Rightarrow> real \<Rightarrow> real \<Rightarrow> real \<Rightarrow> int \<Rightarrow> real \<Rightarrow> bool \<Rightarrow> int \<Rightarrow> int \<Rightarrow> string \<Rightarrow> string
     \<Rightarrow> string \<Rightarrow> error + ComplexMorletCWT" where
  "ComplexMorletCWT_init wavelet_width' fs' lower_freq' upper_freq' n_scales' size_factor'
       trainable' border_crop' stride' name' output data_format' =
     (if lower_freq' > upper_freq' then
        Inl (ValueError ''lower_freq should be lower than upper_freq'')
      else if lower_freq' < 0 then
        Inl (ValueError ''Expected positive lower_freq.'')
      else if output \<notin> set [''complex'', ''magnitude'', ''phase''] then
        Inl (ValueError ''Expected output to be 'complex', 'magnitude' or 'phase'.'')
      else if data_format' \<notin> set [''channels_last'', ''channels_first''] then
        Inl (ValueError ''Expected output to be 'channels_last' or 'channels_first'.'')
      else if upper_freq' = 0 then Inl ZeroDivisionError
      else if lower_freq' = 0 then Inl ZeroDivisionError
      else if n_scales' - 1 = 0 then Inl ZeroDivisionError
      else
        let s_0 = 1 / upper_freq';
            s_n = 1 / lower_freq';
            base = (s_n / s_0) powr (1 / real_of_int (n_scales' - 1));
            scales' = map (\<lambda>i. s_0 * base ^ i) [0..<nat n_scales'];
            frequencies' = map (\<lambda>s. 1 / s) scales';
            self = \<lparr>initial_wavelet_width = wavelet_width', fs = fs',
                    lower_freq = lower_freq', upper_freq = upper_freq',
                    size_factor = size_factor', trainable = trainable',
                    scales = scales', frequencies = frequencies',
                    wavelet_width = wavelet_width'\<rparr>
        in ContinuousWaveletTransform_init self n_scales' border_crop' stride' name'
             output data_format')"

subsection \<open>\<^verbatim>\<open>call\<close>\<close>

text \<open>
  \<^verbatim>\<open>self.border_crop // self.stride\<close> raises on a zero stride; the convolution
  refuses a negative one.
\<close>

definition call :: "ComplexMorletCWT \<Rightarrow> tensor \<Rightarrow> error + tensor" where
  "call self inputs =
     (if stride self = 0 then Inl ZeroDivisionError
      else if stride self < 0 then Inl (ValueError ''strides must be positive'')
      else
        let crop = border_crop self div stride self;
            start = crop;
            end = (if crop > 0 then Some (- crop) else None);
            inputs = (if data_format self = ''channels_last''
                      then tf_transpose inputs [0, 2, 1] else inputs);
            inputs_expand = tf_expand_dims inputs 2;
            inputs_expand = tf_expand_dims inputs_expand 4;
            out_real = tf_nn_conv2d inputs_expand (real_part self)
                         [1, 1, nat (stride self), 1];
            out_imag = tf_nn_conv2d inputs_expand (tmap uminus (imaginary_part self))
                         [1, 1, nat (stride self), 1];
            out_real = crop_axis3 out_real start end;
            out_imag = crop_axis3 out_imag start end;
            scalograms =
              (if outputformat self = ''magnitude'' then
                 tmap sqrt (tmap2 (+) (tmap (\<lambda>v. v ^ 2) out_real) (tmap (\<lambda>v. v ^ 2) out_imag))
               else if outputformat self = ''phase'' then
                 tmap2 atan2 out_imag out_real
               else tf_concat out_real out_imag 1);
            scalograms = (if data_format self = ''channels_last''
                          then tf_transpose scalograms [0, 2, 3, 1] else scalograms)
        in Inr scalograms)"

subsection \<open>Names for the stages of \<^verbatim>\<open>call\<close>\<close>

text \<open>
  The statements about \<^verbatim>\<open>call\<close> speak of values that the function computes on its
  way: the input in the channels-first layout, the two convolutions before cropping
  (\<^verbatim>\<open>out_real\<close> and \<^verbatim>\<open>out_imag\<close> at lines 70 to 75), the crop
  \<^verbatim>\<open>self.border_crop // self.stride\<close> and the slicing by it. They are named here, each
  with the expression \<open>call\<close> has for it; lemma \<open>call_unfold\<close> below shows that \<open>call\<close>
  is composed of them.
\<close>

definition to_channels_first :: "ComplexMorletCWT \<Rightarrow> tensor \<Rightarrow> tensor" where
  "to_channels_first self inputs =
     (if data_format self = ''channels_last'' then tf_transpose inputs [0, 2, 1] else inputs)"

definition conv_real :: "ComplexMorletCWT \<Rightarrow> tensor \<Rightarrow> tensor" where
  "conv_real self inputs =
     tf_nn_conv2d (tf_expand_dims (tf_expand_dims (to_channels_first self inputs) 2) 4)
       (real_part self) [1, 1, nat (stride self), 1]"

definition conv_imag :: "ComplexMorletCWT \<Rightarrow> tensor \<Rightarrow> tensor" where
  "conv_imag self inputs =
     tf_nn_conv2d (tf_expand_dims (tf_expand_dims (to_channels_first self inputs) 2) 4)
       (tmap uminus (imaginary_part self)) [1, 1, nat (stride self), 1]"

definition crop_of :: "ComplexMorletCWT \<Rightarrow> int" where
  "crop_of self = border_crop self div stride self"

definition cropped :: "ComplexMorletCWT \<Rightarrow> tensor \<Rightarrow> tensor" where
  "cropped self a =
     crop_axis3 a (crop_of self) (if crop_of self > 0 then Some (- crop_of self) else None)"

text \<open>
  Where the input and the output have their time and channel axes, by the layout: the
  input is \<open>[batch, time, channels]\<close> or \<open>[batch, channels, time]\<close>, the output
  \<open>[batch, time, scales, channels]\<close> or \<open>[batch, channels, time, scales]\<close>.
\<close>

definition n_channels :: "ComplexMorletCWT \<Rightarrow> tensor \<Rightarrow> nat" where
  "n_channels self inputs =
     (if data_format self = ''channels_last'' then shape inputs ! 2 else shape inputs ! 1)"

definition time_in :: "ComplexMorletCWT \<Rightarrow> tensor \<Rightarrow> nat" where
  "time_in self inputs =
     (if data_format self = ''channels_last'' then shape inputs ! 1 else shape inputs ! 2)"

definition time_axis :: "ComplexMorletCWT \<Rightarrow> nat" where
  "time_axis self = (if data_format self = ''channels_last'' then 1 else 2)"

definition channel_axis :: "ComplexMorletCWT \<Rightarrow> nat" where
  "channel_axis self = (if data_format self = ''channels_last'' then 3 else 1)"

definition out_index :: "ComplexMorletCWT \<Rightarrow> nat \<Rightarrow> nat \<Rightarrow> nat \<Rightarrow> nat \<Rightarrow> nat list" where
  "out_index self b t s ch =
     (if data_format self = ''channels_last'' then [b, t, s, ch] else [b, ch, t, s])"

subsection \<open>A concrete layer state\<close>

text \<open>
  The attributes of a layer constructed with wavelet width 2, sampling frequency 100 and
  three scales between the frequencies 25 and 1, after its wavelet width has been set
  to \<open>1 / 2\<close>: lemma \<open>example_layer_fields\<close> shows that they are those of
  \<open>example_layer\<close> below after that update.
\<close>

definition example_params :: morlet_params where
  "example_params =
     \<lparr>initial_wavelet_width = 2, fs = 100, lower_freq = 1, upper_freq = 25,
      size_factor = 1, trainable = True, scales = [1 / 25, 1 / 5, 1],
      frequencies = [25, 5, 1], wavelet_width = 1 / 2\<rparr>"

text \<open>
  The layer that the constructor returns for wavelet width 2, sampling frequency 100, the
  frequencies 1 to 25, three scales, size factor 1, a border crop of 10 and stride 1, in
  the complex mode and the channels-last layout; and a ramp signal of 128 samples in one
  channel.
\<close>

definition example_layer :: ComplexMorletCWT where
  "example_layer =
     projr (ComplexMorletCWT_init 2 100 1 25 3 1 True 10 1 ''ComplexMorletCWT'' ''complex''
              ''channels_last'')"

definition example_signal :: tensor where
  "example_signal = \<lparr>shape = [1, 128, 1], elems = (\<lambda>idx. real (idx ! 1))\<rparr>"

text \<open>A ramp signal of four samples in one channel.\<close>

definition short_signal :: tensor where
  "short_signal = \<lparr>shape = [1, 4, 1], elems = (\<lambda>idx. real (idx ! 1))\<rparr>"

section \<open>The wavelet bank\<close>

lemma length_t_array: "length (t_array self) = nat (kernel_size self)"
  by (simp add: t_array_def k_array_def)

lemma nth_t_array:
  "i < nat (kernel_size self) \<Longrightarrow>
     t_array self ! i = real_of_int (int i - one_side self) / fs self"
  by (simp add: t_array_def k_array_def)

lemma build_wavelet_bank_Inr:
  assumes "build_wavelet_bank self = Inr (re, im)"
  shows "scales self \<noteq> []"
    and "re = tf_expand_dims (tf_expand_dims (tf_stack_last (map (kernel_real self) (scales self))) 0) 2"
    and "im = tf_expand_dims (tf_expand_dims (tf_stack_last (map (kernel_imag self) (scales self))) 0) 2"
  using assms by (auto simp: build_wavelet_bank_def Let_def split: if_splits)

lemma build_wavelet_bank_shape:
  assumes "build_wavelet_bank self = Inr (re, im)"
  shows "shape re = [1, nat (kernel_size self), 1, length (scales self)]"
    and "shape im = [1, nat (kernel_size self), 1, length (scales self)]"
  using build_wavelet_bank_Inr[OF assms]
  by (simp_all add: tf_expand_dims_def tf_stack_last_def hd_map kernel_real_def kernel_imag_def length_t_array)

lemma build_wavelet_bank_elems:
  assumes "build_wavelet_bank self = Inr (re, im)" and "j < length (scales self)"
  shows "elems re [0, i, 0, j] = kernel_real self (scales self ! j) ! i"
    and "elems im [0, i, 0, j] = kernel_imag self (scales self ! j) ! i"
  using build_wavelet_bank_Inr[OF assms(1)] assms(2)
  by (simp_all add: tf_expand_dims_def tf_stack_last_def)

lemma build_wavelet_bank_succeeds:
  "scales self \<noteq> [] \<Longrightarrow> 0 \<le> initial_wavelet_width self \<Longrightarrow>
     \<exists>re im. build_wavelet_bank self = Inr (re, im)"
  by (simp add: build_wavelet_bank_def Let_def)

lemma kernel_real_tap:
  assumes "- one_side self \<le> k" and "k \<le> one_side self"
  shows "kernel_real self scale ! nat (one_side self + k) =
       kernel_base self scale (real_of_int k / fs self)
         * cos (2 * pi * (real_of_int k / fs self / scale))"
proof -
  have a: "nat (one_side self + k) < nat (kernel_size self)"
    using assms by (simp add: kernel_size_def)
  have b: "int (nat (one_side self + k)) - one_side self = k"
    using assms by simp
  have "kernel_real self scale ! nat (one_side self + k) =
       kernel_base self scale (real_of_int (int (nat (one_side self + k)) - one_side self) / fs self)
         * cos (2 * pi * (real_of_int (int (nat (one_side self + k)) - one_side self) / fs self / scale))"
    using a unfolding kernel_real_def by (simp add: length_t_array nth_t_array)
  then show ?thesis unfolding b .
qed

lemma kernel_imag_tap:
  assumes "- one_side self \<le> k" and "k \<le> one_side self"
  shows "kernel_imag self scale ! nat (one_side self + k) =
       kernel_base self scale (real_of_int k / fs self)
         * sin (2 * pi * (real_of_int k / fs self / scale))"
proof -
  have a: "nat (one_side self + k) < nat (kernel_size self)"
    using assms by (simp add: kernel_size_def)
  have b: "int (nat (one_side self + k)) - one_side self = k"
    using assms by simp
  have "kernel_imag self scale ! nat (one_side self + k) =
       kernel_base self scale (real_of_int (int (nat (one_side self + k)) - one_side self) / fs self)
         * sin (2 * pi * (real_of_int (int (nat (one_side self + k)) - one_side self) / fs self / scale))"
    using a unfolding kernel_imag_def by (simp add: length_t_array nth_t_array)
  then show ?thesis unfolding b .
qed

lemma kernel_base_expand:
  "kernel_base self s t =
     exp (- ((t / s)\<^sup>2) / wavelet_width self) / (sqrt (pi * wavelet_width self) * s * fs self / 2)"
  by (simp add: kernel_base_def norm_constant_def Let_def)

text \<open>
  Claim C2. For every scale \<open>s\<close> of the scale set and every tap \<open>k\<close> between
  \<open>- one_side\<close> and \<open>one_side\<close>, with \<open>t = k / fs\<close>, the built bank holds at tap
  \<open>k\<close> (position \<open>one_side + k\<close>) the envelope \<open>exp (- (t / s)\<^sup>2 / wavelet_width)\<close> divided
  by \<open>sqrt (pi * wavelet_width) * s * fs / 2\<close>, times \<open>cos (2 * pi * (t / s))\<close> in the real
  part and times \<open>sin (2 * pi * (t / s))\<close> in the imaginary part. The width is the
  attribute \<open>wavelet_width\<close>, the current one, not \<open>initial_wavelet_width\<close>.
\<close>

theorem bank_formula:
  assumes "build_wavelet_bank self = Inr (re, im)"
    and "j < length (scales self)"
    and "- one_side self \<le> k" and "k \<le> one_side self"
    and "s = scales self ! j" and "t = real_of_int k / fs self"
    and "0 < wavelet_width self" and "0 < fs self" and "0 < scales self ! j"
  shows "elems re [0, nat (one_side self + k), 0, j] =
           exp (- ((t / s)\<^sup>2) / wavelet_width self)
             / (sqrt (pi * wavelet_width self) * s * fs self / 2) * cos (2 * pi * (t / s))
       \<and> elems im [0, nat (one_side self + k), 0, j] =
           exp (- ((t / s)\<^sup>2) / wavelet_width self)
             / (sqrt (pi * wavelet_width self) * s * fs self / 2) * sin (2 * pi * (t / s))"
  unfolding build_wavelet_bank_elems[OF assms(1,2)] kernel_real_tap[OF assms(3,4)]
    kernel_imag_tap[OF assms(3,4)] kernel_base_expand assms(5,6) by simp

lemma py_int_nonneg: "0 \<le> x \<Longrightarrow> py_int x = \<lfloor>x\<rfloor>"
  by (simp add: py_int_def)

lemma truncation_size_nonneg:
  assumes "scales self \<noteq> []" and "\<forall>s\<in>set (scales self). 0 < s" and "0 < fs self"
    and "0 \<le> initial_wavelet_width self"
  shows "0 \<le> truncation_size self"
proof -
  have "Max (set (scales self)) \<in> set (scales self)"
    using assms(1) by (intro Max_in) simp_all
  then have "0 < Max (set (scales self))" using assms(2) by blast
  moreover have "0 \<le> sqrt (4.5 * initial_wavelet_width self)" using assms(4) by simp
  ultimately show ?thesis using assms(3) unfolding truncation_size_def
    by (intro mult_nonneg_nonneg) simp_all
qed

text \<open>
  Claim C3. For a valid configuration the support is
  \<open>truncation_size = max scales * sqrt (4.5 * initial_wavelet_width) * fs\<close>,
  \<open>one_side = floor (size_factor * truncation_size)\<close> and \<open>kernel_size = 2 * one_side + 1\<close>,
  which is odd; the bank built after the current width has been set to any \<open>w\<close> still
  has this kernel size, since only the initial width enters.
\<close>

theorem kernel_support:
  assumes "scales self \<noteq> []" and "\<forall>s\<in>set (scales self). 0 < s"
    and "0 < fs self" and "0 < initial_wavelet_width self" and "1 \<le> size_factor self"
  shows "(\<exists>re im. build_wavelet_bank (self\<lparr>wavelet_width := w\<rparr>) = Inr (re, im)
           \<and> shape re = [1, nat (kernel_size self), 1, length (scales self)]
           \<and> shape im = [1, nat (kernel_size self), 1, length (scales self)])
    \<and> truncation_size self =
           Max (set (scales self)) * sqrt (4.5 * initial_wavelet_width self) * fs self
    \<and> one_side self = \<lfloor>size_factor self * truncation_size self\<rfloor>
    \<and> kernel_size self = 2 * one_side self + 1
    \<and> odd (kernel_size self)"
proof -
  let ?self' = "self\<lparr>wavelet_width := w\<rparr>"
  have ks: "kernel_size ?self' = kernel_size self"
    by (simp add: kernel_size_def one_side_def truncation_size_def)
  obtain re im where b: "build_wavelet_bank ?self' = Inr (re, im)"
    using build_wavelet_bank_succeeds[of ?self'] assms(1,4) by auto
  have 1: "\<exists>re im. build_wavelet_bank ?self' = Inr (re, im)
           \<and> shape re = [1, nat (kernel_size self), 1, length (scales self)]
           \<and> shape im = [1, nat (kernel_size self), 1, length (scales self)]"
    using b build_wavelet_bank_shape[OF b] ks by simp
  have 2: "truncation_size self =
           Max (set (scales self)) * sqrt (4.5 * initial_wavelet_width self) * fs self"
    by (simp add: truncation_size_def)
  have "0 \<le> truncation_size self"
    using truncation_size_nonneg[OF assms(1,2,3)] assms(4) by simp
  then have "0 \<le> size_factor self * truncation_size self"
    using assms(5) by simp
  then have 3: "one_side self = \<lfloor>size_factor self * truncation_size self\<rfloor>"
    by (simp add: one_side_def py_int_nonneg)
  have 4: "kernel_size self = 2 * one_side self + 1" by (simp add: kernel_size_def)
  have 5: "odd (kernel_size self)" by (simp add: kernel_size_def)
  from 1 2 3 4 5 show ?thesis by blast
qed

text \<open>
  Claim C7. In every scale column the real part is even and the imaginary part odd about
  the centre tap: for \<open>0 \<le> k \<le> one_side\<close>, \<open>real[centre + k] = real[centre - k]\<close> and
  \<open>imag[centre + k] = - imag[centre - k]\<close>, the centre being position \<open>one_side\<close>.
\<close>

theorem bank_symmetry:
  assumes "build_wavelet_bank self = Inr (re, im)"
    and "j < length (scales self)" and "0 \<le> k" and "k \<le> one_side self"
    and "0 < wavelet_width self" and "0 < fs self" and "0 < scales self ! j"
  shows "elems re [0, nat (one_side self + k), 0, j] = elems re [0, nat (one_side self - k), 0, j]
       \<and> elems im [0, nat (one_side self + k), 0, j] = - elems im [0, nat (one_side self - k), 0, j]"
proof -
  have p: "- one_side self \<le> k" and m: "- one_side self \<le> - k" "- k \<le> one_side self"
    using assms(3,4) by simp_all
  have e: "one_side self - k = one_side self + (- k)" by simp
  show ?thesis
    unfolding build_wavelet_bank_elems[OF assms(1,2)] e
      kernel_real_tap[OF p assms(4)] kernel_real_tap[OF m]
      kernel_imag_tap[OF p assms(4)] kernel_imag_tap[OF m] kernel_base_expand
    by simp
qed

lemma center_tap_real:
  assumes "build_wavelet_bank self = Inr (re, im)"
    and "j < length (scales self)" and "0 \<le> one_side self"
  shows "elems re [0, nat (one_side self), 0, j]
      = 2 / (sqrt (pi * wavelet_width self) * (scales self ! j) * fs self)"
proof -
  have z: "- one_side self \<le> 0" "0 \<le> one_side self" using assms(3) by simp_all
  show ?thesis
    using kernel_real_tap[OF z, of "scales self ! j"]
    by (simp add: build_wavelet_bank_elems[OF assms(1,2)] kernel_base_expand)
qed

text \<open>
  Claim C10. In every scale column the centre tap of the imaginary part is 0 and the
  centre tap of the real part is \<open>2 / (sqrt (pi * wavelet_width) * scale * fs)\<close>, which is
  positive for positive width, scale and sampling frequency.
\<close>

theorem bank_center_tap:
  assumes "build_wavelet_bank self = Inr (re, im)"
    and "j < length (scales self)" and "0 \<le> one_side self"
    and "0 < wavelet_width self" and "0 < scales self ! j" and "0 < fs self"
  shows "elems im [0, nat (one_side self), 0, j] = 0
       \<and> elems re [0, nat (one_side self), 0, j]
           = 2 / (sqrt (pi * wavelet_width self) * (scales self ! j) * fs self)
       \<and> 0 < elems re [0, nat (one_side self), 0, j]"
proof -
  have z: "- one_side self \<le> 0" "0 \<le> one_side self" using assms(3) by simp_all
  have r: "elems re [0, nat (one_side self), 0, j]
      = 2 / (sqrt (pi * wavelet_width self) * (scales self ! j) * fs self)"
    using kernel_real_tap[OF z, of "scales self ! j"]
    by (simp add: build_wavelet_bank_elems[OF assms(1,2)] kernel_base_expand)
  have i: "elems im [0, nat (one_side self), 0, j] = 0"
    using kernel_imag_tap[OF z, of "scales self ! j"]
    by (simp add: build_wavelet_bank_elems[OF assms(1,2)])
  have "0 < sqrt (pi * wavelet_width self) * (scales self ! j) * fs self"
    using assms(4,5,6) by simp
  then have "0 < 2 / (sqrt (pi * wavelet_width self) * (scales self ! j) * fs self)"
    by simp
  with r i show ?thesis by simp
qed

section \<open>Construction\<close>

lemma init_checked:
  assumes "0 < lo" "lo \<le> up" "n \<noteq> 1"
    "out \<in> set [''complex'', ''magnitude'', ''phase'']"
    "df \<in> set [''channels_last'', ''channels_first'']"
  shows "ComplexMorletCWT_init ww f lo up n sf tr bc st nm out df =
     ContinuousWaveletTransform_init
       \<lparr>initial_wavelet_width = ww, fs = f, lower_freq = lo, upper_freq = up,
        size_factor = sf, trainable = tr,
        scales = map (\<lambda>i. 1 / up * (((1 / lo) / (1 / up)) powr (1 / real_of_int (n - 1))) ^ i) [0..<nat n],
        frequencies = map (\<lambda>s. 1 / s)
          (map (\<lambda>i. 1 / up * (((1 / lo) / (1 / up)) powr (1 / real_of_int (n - 1))) ^ i) [0..<nat n]),
        wavelet_width = ww\<rparr> n bc st nm out df"
proof -
  have c: "\<not> lo > up" "\<not> lo < 0" "\<not> out \<notin> set [''complex'', ''magnitude'', ''phase'']"
    "\<not> df \<notin> set [''channels_last'', ''channels_first'']" "\<not> up = 0" "\<not> lo = 0"
    "\<not> n - 1 = 0"
    using assms by simp_all
  show ?thesis
    unfolding ComplexMorletCWT_init_def Let_def using c by (simp only: if_False)
qed

lemma base_init_Inr:
  assumes "scales p \<noteq> []" "0 \<le> initial_wavelet_width p"
  shows "\<exists>self. ContinuousWaveletTransform_init p n bc st nm out df = Inr self
     \<and> morlet_params.truncate self = p \<and> n_scales self = n \<and> border_crop self = bc
     \<and> stride self = st \<and> outputformat self = out \<and> data_format self = df
     \<and> build_wavelet_bank p = Inr (real_part self, imaginary_part self)"
proof -
  obtain re im where b: "build_wavelet_bank p = Inr (re, im)"
    using build_wavelet_bank_succeeds[OF assms] by blast
  show ?thesis
    unfolding ContinuousWaveletTransform_init_def b
    by (simp add: morlet_params.extend_def ComplexMorletCWT.fields_def morlet_params.truncate_def)
qed

lemma init_succeeds:
  assumes "0 < lo" and "lo \<le> up" and "2 \<le> n" and "0 \<le> ww"
    and "out \<in> set [''complex'', ''magnitude'', ''phase'']"
    and "df \<in> set [''channels_last'', ''channels_first'']"
  shows "\<exists>self. ComplexMorletCWT_init ww f lo up n sf tr bc st nm out df = Inr self"
proof -
  let ?sc = "map (\<lambda>i. 1 / up * (((1 / lo) / (1 / up)) powr (1 / real_of_int (n - 1))) ^ i) [0..<nat n]"
  let ?p = "\<lparr>initial_wavelet_width = ww, fs = f, lower_freq = lo, upper_freq = up,
        size_factor = sf, trainable = tr, scales = ?sc,
        frequencies = map (\<lambda>s. 1 / s) ?sc, wavelet_width = ww\<rparr>"
  have i: "ComplexMorletCWT_init ww f lo up n sf tr bc st nm out df =
      ContinuousWaveletTransform_init ?p n bc st nm out df"
    by (rule init_checked) (use assms in simp_all)
  have "scales ?p \<noteq> []" using assms(3) by simp
  moreover have "0 \<le> initial_wavelet_width ?p" using assms(4) by simp
  ultimately show ?thesis
    unfolding i using base_init_Inr[of ?p n bc st nm out df] by blast
qed

lemma geometric_base_gt_one:
  assumes "0 < lo" "lo < up" "2 \<le> n"
  shows "1 < ((1 / lo) / (1 / up)) powr (1 / real_of_int (n - 1))"
proof -
  have "1 < (1 / lo) / (1 / up)" using assms(1,2) by (simp add: field_simps)
  moreover have "0 < 1 / real_of_int (n - 1)" using assms(3) by simp
  ultimately show ?thesis by (rule gr_one_powr)
qed

lemma geometric_last:
  assumes "0 < lo" "lo < up" "2 \<le> n"
  shows "1 / up * (((1 / lo) / (1 / up)) powr (1 / real_of_int (n - 1))) ^ (nat n - 1) = 1 / lo"
proof -
  let ?r = "(1 / lo) / (1 / up)"
  have r: "0 < ?r" using assms(1,2) by simp
  have m: "real (nat n - 1) = real_of_int (n - 1)" using assms(3) by simp
  have "(?r powr (1 / real_of_int (n - 1))) ^ (nat n - 1)
      = (?r powr (1 / real_of_int (n - 1))) powr real (nat n - 1)"
  proof (rule powr_realpow[symmetric])
    show "0 < ?r powr (1 / real_of_int (n - 1))" using assms(1,2) by simp
  qed
  also have "\<dots> = ?r powr (1 / real_of_int (n - 1) * real_of_int (n - 1))"
    unfolding m by (rule powr_powr)
  also have "\<dots> = ?r powr 1" using assms(3) by simp
  also have "\<dots> = ?r" using assms(1,2) by simp
  finally show ?thesis using assms(1,2) by simp
qed

lemma geometric_sorted:
  assumes "0 < (a::real)" "1 < b"
  shows "sorted_wrt (<) (map (\<lambda>i. a * b ^ i) [0..<m])"
    and "sorted_wrt (>) (map (\<lambda>s. 1 / s) (map (\<lambda>i. a * b ^ i) [0..<m]))"
proof -
  have inc: "a * b ^ i < a * b ^ j" if "i < j" for i j :: nat
    using that assms by simp
  show "sorted_wrt (<) (map (\<lambda>i. a * b ^ i) [0..<m])"
    unfolding sorted_wrt_map
    by (rule sorted_wrt_mono_rel[OF _ sorted_wrt_upt]) (rule inc)
  have dec: "1 / (a * b ^ j) < 1 / (a * b ^ i)" if "i < j" for i j :: nat
  proof -
    have "0 < a * b ^ i" using assms by simp
    then show ?thesis using inc[OF that] by (simp add: frac_less2)
  qed
  show "sorted_wrt (>) (map (\<lambda>s. 1 / s) (map (\<lambda>i. a * b ^ i) [0..<m]))"
    unfolding sorted_wrt_map
    by (rule sorted_wrt_mono_rel[OF _ sorted_wrt_upt]) (rule dec)
qed

text \<open>
  Claim C4. For \<open>0 < lower_freq < upper_freq\<close> and \<open>n_scales \<ge> 2\<close> the constructor returns
  a layer whose scales are \<open>s0 * base ^ i\<close> for \<open>i = 0 .. n_scales - 1\<close>, with
  \<open>s0 = 1 / upper_freq\<close>, \<open>sn = 1 / lower_freq\<close> and \<open>base = (sn / s0) powr (1 / (n_scales - 1))\<close>,
  and whose frequencies are the reciprocals of the scales; the scales increase strictly,
  the frequencies decrease strictly, the first frequency is \<open>upper_freq\<close> and the last
  is \<open>lower_freq\<close>. The witness is the specification's example: \<open>fs = 100\<close>,
  \<open>lower_freq = 1\<close>, \<open>upper_freq = 25\<close>, \<open>n_scales = 3\<close> give the scales
  \<open>[0.04, 0.2, 1]\<close> and the frequencies \<open>[25, 5, 1]\<close>.
\<close>

theorem scale_generation:
  assumes "0 < lo" and "lo < up" and "2 \<le> n" and "0 < ww"
    and "out \<in> set [''complex'', ''magnitude'', ''phase'']"
    and "df \<in> set [''channels_last'', ''channels_first'']"
  shows "\<exists>self. ComplexMorletCWT_init ww f lo up n sf tr bc st nm out df = Inr self
     \<and> scales self =
         map (\<lambda>i. 1 / up * (((1 / lo) / (1 / up)) powr (1 / real_of_int (n - 1))) ^ i) [0..<nat n]
     \<and> frequencies self = map (\<lambda>s. 1 / s) (scales self)
     \<and> length (scales self) = nat n
     \<and> sorted_wrt (<) (scales self) \<and> sorted_wrt (>) (frequencies self)
     \<and> frequencies self ! 0 = up \<and> last (frequencies self) = lo"
proof -
  let ?b = "((1 / lo) / (1 / up)) powr (1 / real_of_int (n - 1))"
  let ?sc = "map (\<lambda>i. 1 / up * ?b ^ i) [0..<nat n]"
  let ?p = "\<lparr>initial_wavelet_width = ww, fs = f, lower_freq = lo, upper_freq = up,
        size_factor = sf, trainable = tr, scales = ?sc,
        frequencies = map (\<lambda>s. 1 / s) ?sc, wavelet_width = ww\<rparr>"
  have up: "0 < up" using assms(1,2) by simp
  have n: "0 < nat n" using assms(3) by simp
  have i: "ComplexMorletCWT_init ww f lo up n sf tr bc st nm out df =
      ContinuousWaveletTransform_init ?p n bc st nm out df"
    by (rule init_checked) (use assms in simp_all)
  have "scales ?p \<noteq> []" using n by simp
  moreover have "0 \<le> initial_wavelet_width ?p" using assms(4) by simp
  ultimately obtain self where s: "ContinuousWaveletTransform_init ?p n bc st nm out df = Inr self"
    and t: "morlet_params.truncate self = ?p"
    using base_init_Inr[of ?p n bc st nm out df] by blast
  have sc: "scales self = ?sc" and fr: "frequencies self = map (\<lambda>s. 1 / s) ?sc"
    using arg_cong[OF t, of scales] arg_cong[OF t, of frequencies]
    by (simp_all add: morlet_params.truncate_def)
  have b: "1 < ?b" by (rule geometric_base_gt_one[OF assms(1,2,3)])
  have u: "0 < 1 / up" using up by simp
  have f0: "frequencies self ! 0 = up"
    unfolding fr using n up by (simp add: nth_map)
  have ne: "[0..<nat n] \<noteq> []" using n by simp
  have "last (frequencies self) = 1 / (1 / up * ?b ^ (nat n - 1))"
    unfolding fr using ne by (simp add: last_map)
  also have "\<dots> = lo"
    unfolding geometric_last[OF assms(1,2,3)] using assms(1) by simp
  finally have fl: "last (frequencies self) = lo" .
  show ?thesis
    using i s sc fr f0 fl geometric_sorted[OF u b, of "nat n"] by simp
qed

lemma base_init_empty_scales:
  "scales p = [] \<Longrightarrow> isl (ContinuousWaveletTransform_init p n bc st nm out df)"
  by (simp add: ContinuousWaveletTransform_init_def build_wavelet_bank_def)

lemma construction_outcomes:
  "(up < lo \<or> lo < 0 \<or> out \<notin> set [''complex'', ''magnitude'', ''phase'']
      \<or> df \<notin> set [''channels_last'', ''channels_first'']
     \<longrightarrow> (\<exists>m. ComplexMorletCWT_init ww f lo up n sf tr bc st nm out df = Inl (ValueError m)))
   \<and> (n < 2 \<longrightarrow> isl (ComplexMorletCWT_init ww f lo up n sf tr bc st nm out df))
   \<and> (0 < lo \<and> lo < up \<and> 2 \<le> n \<and> 0 < ww
        \<and> out \<in> set [''complex'', ''magnitude'', ''phase'']
        \<and> df \<in> set [''channels_last'', ''channels_first'']
     \<longrightarrow> (\<exists>self. ComplexMorletCWT_init ww f lo up n sf tr bc st nm out df = Inr self
            \<and> fs self = f))"
proof (intro conjI impI)
  assume "up < lo \<or> lo < 0 \<or> out \<notin> set [''complex'', ''magnitude'', ''phase'']
      \<or> df \<notin> set [''channels_last'', ''channels_first'']"
  then show "\<exists>m. ComplexMorletCWT_init ww f lo up n sf tr bc st nm out df = Inl (ValueError m)"
    unfolding ComplexMorletCWT_init_def by auto
next
  assume n: "n < 2"
  show "isl (ComplexMorletCWT_init ww f lo up n sf tr bc st nm out df)"
  proof (cases "n \<le> 0")
    case True
    then have "nat n = 0" by simp
    then show ?thesis
      unfolding ComplexMorletCWT_init_def Let_def
      by (simp add: base_init_empty_scales)
  next
    case False
    with n have "n - 1 = 0" by simp
    then show ?thesis
      unfolding ComplexMorletCWT_init_def Let_def by simp
  qed
next
  assume a: "0 < lo \<and> lo < up \<and> 2 \<le> n \<and> 0 < ww
        \<and> out \<in> set [''complex'', ''magnitude'', ''phase'']
        \<and> df \<in> set [''channels_last'', ''channels_first'']"
  let ?sc = "map (\<lambda>i. 1 / up * (((1 / lo) / (1 / up)) powr (1 / real_of_int (n - 1))) ^ i) [0..<nat n]"
  let ?p = "\<lparr>initial_wavelet_width = ww, fs = f, lower_freq = lo, upper_freq = up,
        size_factor = sf, trainable = tr, scales = ?sc,
        frequencies = map (\<lambda>s. 1 / s) ?sc, wavelet_width = ww\<rparr>"
  have i: "ComplexMorletCWT_init ww f lo up n sf tr bc st nm out df =
      ContinuousWaveletTransform_init ?p n bc st nm out df"
    by (rule init_checked) (use a in simp_all)
  have "scales ?p \<noteq> []" using a by simp
  moreover have "0 \<le> initial_wavelet_width ?p" using a by simp
  ultimately obtain self where s: "ContinuousWaveletTransform_init ?p n bc st nm out df = Inr self"
    and t: "morlet_params.truncate self = ?p"
    using base_init_Inr[of ?p n bc st nm out df] by blast
  have "fs self = f" using arg_cong[OF t, of fs] by (simp add: morlet_params.truncate_def)
  then show "\<exists>self. ComplexMorletCWT_init ww f lo up n sf tr bc st nm out df = Inr self
            \<and> fs self = f"
    using i s by simp
qed

lemma init_one_scale:
  assumes "0 < lo" "lo < up"
    "out \<in> set [''complex'', ''magnitude'', ''phase'']"
    "df \<in> set [''channels_last'', ''channels_first'']"
  shows "ComplexMorletCWT_init ww f lo up 1 sf tr bc st nm out df = Inl ZeroDivisionError"
proof -
  have c: "\<not> lo > up" "\<not> lo < 0" "\<not> out \<notin> set [''complex'', ''magnitude'', ''phase'']"
    "\<not> df \<notin> set [''channels_last'', ''channels_first'']" "\<not> up = 0" "\<not> lo = 0"
    "(1::int) - 1 = 0"
    using assms by simp_all
  show ?thesis
    unfolding ComplexMorletCWT_init_def using c by (simp only: if_False if_True refl)
qed

lemma init_no_scales:
  assumes "0 < lo" "lo < up" "n \<le> 0"
    "out \<in> set [''complex'', ''magnitude'', ''phase'']"
    "df \<in> set [''channels_last'', ''channels_first'']"
  shows "ComplexMorletCWT_init ww f lo up n sf tr bc st nm out df =
     Inl (ValueError ''zero-size array to reduction operation maximum which has no identity'')"
proof -
  have n: "nat n = 0" "n \<noteq> 1" using assms(3) by simp_all
  have l: "lo \<le> up" using assms(2) by simp
  show ?thesis
    unfolding init_checked[OF assms(1) l n(2) assms(4,5)]
    by (simp add: ContinuousWaveletTransform_init_def build_wavelet_bank_def n(1))
qed

text \<open>
  Claim C8, as amended. The constructor raises a \<open>ValueError\<close> whenever
  \<open>lower_freq > upper_freq\<close>, \<open>lower_freq < 0\<close> or the output mode or the data format is
  not one of the known strings; it fails for every \<open>n_scales < 2\<close>: with the other
  parameters valid, by the \<open>ZeroDivisionError\<close> of the division by \<open>n_scales - 1\<close> at 1,
  and by the \<open>ValueError\<close> of the maximum of an empty scale array below 1; and for
  \<open>0 < lower_freq < upper_freq\<close>, \<open>n_scales \<ge> 2\<close>, a positive wavelet width and known
  strings it returns a layer whatever the sampling frequency is: \<open>fs\<close> is not checked.
\<close>

theorem construction_errors:
  "(up < lo \<or> lo < 0 \<or> out \<notin> set [''complex'', ''magnitude'', ''phase'']
      \<or> df \<notin> set [''channels_last'', ''channels_first'']
     \<longrightarrow> (\<exists>m. ComplexMorletCWT_init ww f lo up n sf tr bc st nm out df = Inl (ValueError m)))
   \<and> (n < 2 \<longrightarrow> isl (ComplexMorletCWT_init ww f lo up n sf tr bc st nm out df))
   \<and> (0 < lo \<and> lo < up \<and> n = 1
        \<and> out \<in> set [''complex'', ''magnitude'', ''phase'']
        \<and> df \<in> set [''channels_last'', ''channels_first'']
     \<longrightarrow> ComplexMorletCWT_init ww f lo up n sf tr bc st nm out df = Inl ZeroDivisionError)
   \<and> (0 < lo \<and> lo < up \<and> n \<le> 0
        \<and> out \<in> set [''complex'', ''magnitude'', ''phase'']
        \<and> df \<in> set [''channels_last'', ''channels_first'']
     \<longrightarrow> ComplexMorletCWT_init ww f lo up n sf tr bc st nm out df =
           Inl (ValueError ''zero-size array to reduction operation maximum which has no identity''))
   \<and> (0 < lo \<and> lo < up \<and> 2 \<le> n \<and> 0 < ww
        \<and> out \<in> set [''complex'', ''magnitude'', ''phase'']
        \<and> df \<in> set [''channels_last'', ''channels_first'']
     \<longrightarrow> (\<exists>self. ComplexMorletCWT_init ww f lo up n sf tr bc st nm out df = Inr self
            \<and> fs self = f))"
  using construction_outcomes[of up lo out df ww f n sf tr bc st nm]
    init_one_scale[of lo up out df ww f sf tr bc st nm]
    init_no_scales[of lo up n out df ww f sf tr bc st nm]
  by blast

section \<open>The transform\<close>

lemma upt4: "[0..<4] = [0, 1, 2, 3]" by (simp add: eval_nat_numeral upt_rec)

lemma same_out_len_ceiling:
  assumes "0 < s"
  shows "int (same_out_len n s) = \<lceil>real n / real s\<rceil>"
proof -
  define m where "m = (n + s - 1) div s"
  have lo: "m * s \<le> n + s - 1" unfolding m_def by (rule div_times_less_eq_dividend)
  have hi: "n + s - 1 < m * s + s"
    unfolding m_def using dividend_less_div_times[OF assms, of "n + s - 1"] by simp
  have 1: "n \<le> m * s" using hi assms by simp
  have 2: "m * s < n + s" using lo assms by simp
  have a: "real n / real s \<le> real m"
  proof -
    have "real n \<le> real (m * s)" using 1 by (simp only: of_nat_le_iff)
    then show ?thesis using assms by (simp add: pos_divide_le_eq)
  qed
  have b: "real m - 1 < real n / real s"
  proof -
    have "real (m * s) < real (n + s)" using 2 by (simp only: of_nat_less_iff)
    then have "(real m - 1) * real s < real n" by (simp add: algebra_simps)
    then show ?thesis using assms by (simp add: pos_less_divide_eq)
  qed
  have "\<lceil>real n / real s\<rceil> = int m"
    by (rule ceiling_unique) (use a b in simp_all)
  then show ?thesis by (simp add: same_out_len_def m_def)
qed

lemma call_unfold:
  assumes "0 < stride self"
  shows "call self x = Inr
     (let out_real = cropped self (conv_real self x);
          out_imag = cropped self (conv_imag self x);
          scalograms =
              (if outputformat self = ''magnitude'' then
                 tmap sqrt (tmap2 (+) (tmap (\<lambda>v. v ^ 2) out_real) (tmap (\<lambda>v. v ^ 2) out_imag))
               else if outputformat self = ''phase'' then
                 tmap2 atan2 out_imag out_real
               else tf_concat out_real out_imag 1)
      in if data_format self = ''channels_last''
         then tf_transpose scalograms [0, 2, 3, 1] else scalograms)"
  using assms
  by (simp add: call_def Let_def conv_real_def conv_imag_def cropped_def crop_of_def
      to_channels_first_def)

lemma to_channels_first_shape:
  assumes "shape x = [d0, d1, d2]"
  shows "shape (to_channels_first self x) = [d0, n_channels self x, time_in self x]"
  using assms by (simp add: to_channels_first_def n_channels_def time_in_def tf_transpose_def)

lemma conv_shape:
  assumes "shape a = [b, c, t]"
  shows "shape (tf_nn_conv2d (tf_expand_dims (tf_expand_dims a 2) 4) w [1, 1, s, 1])
     = [b, c, 1, same_out_len t s, shape w ! 3]"
  using assms by (simp add: tf_nn_conv2d_def tf_expand_dims_def Let_def same_out_len_def)

lemma conv_real_shape:
  assumes "shape x = [d0, d1, d2]"
  shows "shape (conv_real self x) =
     [d0, n_channels self x, 1, same_out_len (time_in self x) (nat (stride self)),
      shape (real_part self) ! 3]"
  unfolding conv_real_def by (rule conv_shape[OF to_channels_first_shape[OF assms]])

lemma conv_imag_shape:
  assumes "shape x = [d0, d1, d2]"
  shows "shape (conv_imag self x) =
     [d0, n_channels self x, 1, same_out_len (time_in self x) (nat (stride self)),
      shape (imaginary_part self) ! 3]"
  unfolding conv_imag_def
  using conv_shape[OF to_channels_first_shape[OF assms], of self "tmap uminus (imaginary_part self)"]
  by (simp add: tmap_def)

lemma slice_range_crop:
  assumes "0 \<le> c"
  shows "snd (slice_range n c (if c > 0 then Some (- c) else None)) = nat (int n - 2 * c)"
  using assms by (auto simp: slice_range_def slice_bound_def Let_def)

lemma cropped_shape:
  assumes "shape a = [b, c, h, l, s]" and "0 \<le> crop_of self"
  shows "shape (cropped self a) = [b, c, nat (int l - 2 * crop_of self), s]"
  using slice_range_crop[OF assms(2), of l] assms(1)
  by (simp add: cropped_def crop_axis3_def split_beta)

lemma cropped_axis1: "shape (cropped self a) ! 1 = shape a ! 1"
  by (simp add: cropped_def crop_axis3_def split_beta)

lemma crop_of_nonneg: "0 < stride self \<Longrightarrow> 0 \<le> border_crop self \<Longrightarrow> 0 \<le> crop_of self"
  by (simp add: crop_of_def pos_imp_zdiv_nonneg_iff)

lemma call_time_axis:
  assumes "shape x = [d0, d1, d2]" and "0 < stride self" and "0 \<le> border_crop self"
  shows "\<exists>y. call self x = Inr y \<and> shape y ! time_axis self =
     nat (int (same_out_len (time_in self x) (nat (stride self))) - 2 * crop_of self)"
proof -
  have c: "0 \<le> crop_of self" by (rule crop_of_nonneg[OF assms(2,3)])
  have r: "shape (cropped self (conv_real self x)) =
      [d0, n_channels self x, nat (int (same_out_len (time_in self x) (nat (stride self)))
         - 2 * crop_of self), shape (real_part self) ! 3]"
    by (rule cropped_shape[OF conv_real_shape[OF assms(1)] c])
  have i: "shape (cropped self (conv_imag self x)) =
      [d0, n_channels self x, nat (int (same_out_len (time_in self x) (nat (stride self)))
         - 2 * crop_of self), shape (imaginary_part self) ! 3]"
    by (rule cropped_shape[OF conv_imag_shape[OF assms(1)] c])
  show ?thesis
    unfolding call_unfold[OF assms(2)]
    by (simp add: Let_def r i time_axis_def tmap_def tmap2_def tf_concat_def tf_transpose_def)
qed

lemma mode_independent [simp]:
  "conv_real (self\<lparr>outputformat := m\<rparr>) x = conv_real self x"
  "conv_imag (self\<lparr>outputformat := m\<rparr>) x = conv_imag self x"
  "cropped (self\<lparr>outputformat := m\<rparr>) a = cropped self a"
  "n_channels (self\<lparr>outputformat := m\<rparr>) x = n_channels self x"
  by (simp_all add: conv_real_def conv_imag_def cropped_def crop_of_def n_channels_def
      to_channels_first_def)

lemma cropped_real_channels:
  assumes "shape x = [d0, d1, d2]"
  shows "shape (cropped self (conv_real self x)) ! 1 = n_channels self x"
  unfolding cropped_axis1 conv_real_shape[OF assms] by simp

lemma cropped_imag_channels:
  assumes "shape x = [d0, d1, d2]"
  shows "shape (cropped self (conv_imag self x)) ! 1 = n_channels self x"
  unfolding cropped_axis1 conv_imag_shape[OF assms] by simp

lemma cropped_rank4: "length (shape (cropped self a)) = 4"
  by (simp add: cropped_def crop_axis3_def split_beta)

text \<open>
  Claim C6. For one input and layers that differ in the output mode only, at every
  position and every input channel \<open>ch\<close>: the magnitude-mode output is
  \<open>sqrt (re\<^sup>2 + im\<^sup>2)\<close> and the phase-mode output is \<open>atan2 im re\<close>, where \<open>re\<close> is channel
  \<open>ch\<close> and \<open>im\<close> channel \<open>n_channels + ch\<close> of the complex-mode output. The complex mode
  has \<open>2 * n_channels\<close> output channels, the other two \<open>n_channels\<close>.
\<close>

theorem output_modes_agree:
  assumes "shape x = [d0, d1, d2]" and "0 < stride self" and "ch < n_channels self x"
  shows "\<exists>yc ym yp.
       call (self\<lparr>outputformat := ''complex''\<rparr>) x = Inr yc
     \<and> call (self\<lparr>outputformat := ''magnitude''\<rparr>) x = Inr ym
     \<and> call (self\<lparr>outputformat := ''phase''\<rparr>) x = Inr yp
     \<and> elems ym (out_index self b t s ch) =
         sqrt ((elems yc (out_index self b t s ch))\<^sup>2
               + (elems yc (out_index self b t s (n_channels self x + ch)))\<^sup>2)
     \<and> elems yp (out_index self b t s ch) =
         atan2 (elems yc (out_index self b t s (n_channels self x + ch)))
               (elems yc (out_index self b t s ch))
     \<and> shape yc ! channel_axis self = 2 * n_channels self x
     \<and> shape ym ! channel_axis self = n_channels self x
     \<and> shape yp ! channel_axis self = n_channels self x"
proof -
  let ?R = "cropped self (conv_real self x)"
  let ?I = "cropped self (conv_imag self x)"
  have cr: "shape ?R ! 1 = n_channels self x" by (rule cropped_real_channels[OF assms(1)])
  have ci: "shape ?I ! 1 = n_channels self x" by (rule cropped_imag_channels[OF assms(1)])
  have cr': "shape ?R ! Suc 0 = n_channels self x" using cr by simp
  have ci': "shape ?I ! Suc 0 = n_channels self x" using ci by simp
  obtain r0 r1 r2 r3 where R: "shape ?R = [r0, r1, r2, r3]"
    by (simp add: cropped_def crop_axis3_def split_beta)
  obtain i0 i1 i2 i3 where I: "shape ?I = [i0, i1, i2, i3]"
    by (simp add: cropped_def crop_axis3_def split_beta)
  have st: "0 < stride (self\<lparr>outputformat := m\<rparr>)" for m using assms(2) by simp
  show ?thesis
  proof (cases "data_format self = ''channels_last''")
    case True
    show ?thesis
      unfolding call_unfold[OF st]
      using True assms(3) cr' ci' R I
      by (simp add: Let_def out_index_def channel_axis_def tmap_def tmap2_def tf_concat_def
          tf_transpose_def index_of_def upt4)
  next
    case False
    show ?thesis
      unfolding call_unfold[OF st]
      using False assms(3) cr' ci' R I
      by (simp add: Let_def out_index_def channel_axis_def tmap_def tmap2_def tf_concat_def)
  qed
qed

lemma call_ignores_wavelet_width:
  "call (self\<lparr>wavelet_width := w\<rparr>) x = call self x"
  by (simp add: call_def cong: if_cong)

lemma slice_range_lo:
  assumes "0 \<le> c" and "c \<le> int n"
  shows "fst (slice_range n c (if c > 0 then Some (- c) else None)) = nat c"
  using assms by (auto simp: slice_range_def slice_bound_def Let_def)

lemma cropped_elems:
  assumes "0 \<le> crop_of self" and "crop_of self \<le> int (shape a ! 3)"
  shows "elems (cropped self a) idx =
     elems a [idx ! 0, idx ! 1, 0, nat (crop_of self) + idx ! 2, idx ! 3]"
  using slice_range_lo[OF assms]
  by (simp add: cropped_def crop_axis3_def split_beta)

lemma border_crop_update:
  "conv_real (self\<lparr>border_crop := c\<rparr>) x = conv_real self x"
  "conv_imag (self\<lparr>border_crop := c\<rparr>) x = conv_imag self x"
  "n_channels (self\<lparr>border_crop := c\<rparr>) x = n_channels self x"
  "time_in (self\<lparr>border_crop := c\<rparr>) x = time_in self x"
  "crop_of (self\<lparr>border_crop := 0\<rparr>) = 0"
  by (simp_all add: conv_real_def conv_imag_def n_channels_def time_in_def crop_of_def
      to_channels_first_def)

lemma call_elems:
  assumes "shape x = [d0, d1, d2]" and "0 < stride self" and "0 \<le> crop_of self"
    and "crop_of self \<le> int (same_out_len (time_in self x) (nat (stride self)))"
    and "call self x = Inr y"
  shows "elems y (out_index self b t s k) =
     (if outputformat self = ''magnitude'' then
        sqrt ((elems (conv_real self x) [b, k, 0, nat (crop_of self) + t, s])\<^sup>2
              + (elems (conv_imag self x) [b, k, 0, nat (crop_of self) + t, s])\<^sup>2)
      else if outputformat self = ''phase'' then
        atan2 (elems (conv_imag self x) [b, k, 0, nat (crop_of self) + t, s])
              (elems (conv_real self x) [b, k, 0, nat (crop_of self) + t, s])
      else if k < n_channels self x then
        elems (conv_real self x) [b, k, 0, nat (crop_of self) + t, s]
      else elems (conv_imag self x) [b, k - n_channels self x, 0, nat (crop_of self) + t, s])"
proof -
  have lr: "crop_of self \<le> int (shape (conv_real self x) ! 3)"
    unfolding conv_real_shape[OF assms(1)] using assms(4) by simp
  have li: "crop_of self \<le> int (shape (conv_imag self x) ! 3)"
    unfolding conv_imag_shape[OF assms(1)] using assms(4) by simp
  note er = cropped_elems[OF assms(3) lr]
  note ei = cropped_elems[OF assms(3) li]
  have cr: "shape (cropped self (conv_real self x)) ! Suc 0 = n_channels self x"
    using cropped_real_channels[OF assms(1), of self] by simp
  obtain r0 r1 r2 r3 where R: "shape (cropped self (conv_real self x)) = [r0, r1, r2, r3]"
    by (simp add: cropped_def crop_axis3_def split_beta)
  show ?thesis
  proof (cases "data_format self = ''channels_last''")
    case True
    show ?thesis
      using assms(5) True cr R unfolding call_unfold[OF assms(2)]
      by (auto simp add: Let_def out_index_def tmap_def tmap2_def tf_concat_def
          tf_transpose_def index_of_def upt4 er ei)
  next
    case False
    show ?thesis
      using assms(5) False cr R unfolding call_unfold[OF assms(2)]
      by (auto simp add: Let_def out_index_def tmap_def tmap2_def tf_concat_def er ei)
  qed
qed

lemma layout_border_crop:
  "time_axis (self\<lparr>border_crop := c\<rparr>) = time_axis self"
  "out_index (self\<lparr>border_crop := c\<rparr>) = out_index self"
  by (simp_all add: time_axis_def out_index_def fun_eq_iff)

lemma call_zero_crop:
  assumes "border_crop self div stride self = 0"
  shows "call (self\<lparr>border_crop := 0\<rparr>) x = call self x"
  using assms by (simp add: call_def cong: if_cong)

text \<open>
  Claim C5, as amended. For an input of rank 3 with \<open>time_in\<close> samples, a positive stride
  and a non-negative border crop, \<open>call\<close> returns. Both convolutions have
  \<open>ceil (time_in / stride)\<close> time steps before cropping, and so has the output \<open>y0\<close> of the
  same layer without border crop. With \<open>crop = floor (border_crop / stride)\<close> the output
  has \<open>max 0 (ceil (time_in / stride) - 2 * crop)\<close> time steps (the slice
  \<^verbatim>\<open>[crop:-crop]\<close> is empty when the crop exceeds half of them), and its time step \<open>t\<close>
  is time step \<open>crop + t\<close> of the uncropped output: \<open>crop\<close> steps are gone from the front
  and \<open>crop\<close> from the back. Each output element is given from the two convolutions at
  time step \<open>crop + t\<close>, by the output mode. Nothing is trimmed when the crop is 0; with
  stride 1 and no border crop the output has \<open>time_in\<close> time steps, and with stride 1 and
  a border crop \<open>B\<close> with \<open>2 * B \<le> time_in\<close> it has \<open>time_in - 2 * B\<close>.
\<close>

theorem call_crops_both_ends:
  assumes "shape x = [d0, d1, d2]" and "0 < stride self" and "0 \<le> border_crop self"
  shows "\<exists>y y0.
       call self x = Inr y \<and> call (self\<lparr>border_crop := 0\<rparr>) x = Inr y0
     \<and> int (shape (conv_real self x) ! 3) = \<lceil>real (time_in self x) / real_of_int (stride self)\<rceil>
     \<and> int (shape (conv_imag self x) ! 3) = \<lceil>real (time_in self x) / real_of_int (stride self)\<rceil>
     \<and> int (shape y0 ! time_axis self) = \<lceil>real (time_in self x) / real_of_int (stride self)\<rceil>
     \<and> int (shape y ! time_axis self) =
         max 0 (\<lceil>real (time_in self x) / real_of_int (stride self)\<rceil>
                 - 2 * (border_crop self div stride self))
     \<and> (\<forall>b t s k. t < shape y ! time_axis self \<longrightarrow>
           elems y (out_index self b t s k) =
             elems y0 (out_index self b (nat (border_crop self div stride self) + t) s k)
         \<and> elems y (out_index self b t s k) =
            (if outputformat self = ''magnitude'' then
               sqrt ((elems (conv_real self x)
                        [b, k, 0, nat (border_crop self div stride self) + t, s])\<^sup>2
                     + (elems (conv_imag self x)
                        [b, k, 0, nat (border_crop self div stride self) + t, s])\<^sup>2)
             else if outputformat self = ''phase'' then
               atan2 (elems (conv_imag self x)
                        [b, k, 0, nat (border_crop self div stride self) + t, s])
                     (elems (conv_real self x)
                        [b, k, 0, nat (border_crop self div stride self) + t, s])
             else if k < n_channels self x then
               elems (conv_real self x) [b, k, 0, nat (border_crop self div stride self) + t, s]
             else elems (conv_imag self x)
                    [b, k - n_channels self x, 0, nat (border_crop self div stride self) + t, s]))
     \<and> (border_crop self div stride self = 0 \<longrightarrow> y = y0)
     \<and> (stride self = 1 \<and> border_crop self = 0 \<longrightarrow> shape y ! time_axis self = time_in self x)
     \<and> (stride self = 1 \<and> 2 * border_crop self \<le> int (time_in self x) \<longrightarrow>
          int (shape y ! time_axis self) = int (time_in self x) - 2 * border_crop self)"
proof -
  let ?self0 = "self\<lparr>border_crop := 0\<rparr>"
  let ?L = "same_out_len (time_in self x) (nat (stride self))"
  let ?c = "border_crop self div stride self"
  have c: "0 \<le> crop_of self" by (rule crop_of_nonneg[OF assms(2,3)])
  have cd: "crop_of self = ?c" by (simp add: crop_of_def)
  have s0: "0 < stride ?self0" "0 \<le> border_crop ?self0" using assms(2) by simp_all
  have c0: "crop_of ?self0 = 0" by (simp add: crop_of_def)
  obtain y where y: "call self x = Inr y"
    and ty: "shape y ! time_axis self = nat (int ?L - 2 * crop_of self)"
    using call_time_axis[OF assms] by blast
  obtain y0 where y0: "call ?self0 x = Inr y0"
    and ty0': "shape y0 ! time_axis ?self0 =
      nat (int (same_out_len (time_in ?self0 x) (nat (stride ?self0))) - 2 * crop_of ?self0)"
    using call_time_axis[OF assms(1) s0] by blast
  have ty0: "shape y0 ! time_axis self = ?L"
    using ty0' by (simp add: c0 layout_border_crop border_crop_update)
  have s: "real (nat (stride self)) = real_of_int (stride self)" using assms(2) by simp
  have L: "int ?L = \<lceil>real (time_in self x) / real_of_int (stride self)\<rceil>"
    using same_out_len_ceiling[of "nat (stride self)" "time_in self x"] assms(2) s by simp
  have 1: "int (shape (conv_real self x) ! 3) = \<lceil>real (time_in self x) / real_of_int (stride self)\<rceil>"
    unfolding conv_real_shape[OF assms(1)] using L by simp
  have 2: "int (shape (conv_imag self x) ! 3) = \<lceil>real (time_in self x) / real_of_int (stride self)\<rceil>"
    unfolding conv_imag_shape[OF assms(1)] using L by simp
  have 3: "int (shape y0 ! time_axis self) = \<lceil>real (time_in self x) / real_of_int (stride self)\<rceil>"
    unfolding ty0 by (rule L)
  have 4: "int (shape y ! time_axis self) =
         max 0 (\<lceil>real (time_in self x) / real_of_int (stride self)\<rceil> - 2 * ?c)"
    unfolding ty L cd by simp
  have 5: "elems y (out_index self b t s k) = elems y0 (out_index self b (nat ?c + t) s k)
         \<and> elems y (out_index self b t s k) =
            (if outputformat self = ''magnitude'' then
               sqrt ((elems (conv_real self x) [b, k, 0, nat ?c + t, s])\<^sup>2
                     + (elems (conv_imag self x) [b, k, 0, nat ?c + t, s])\<^sup>2)
             else if outputformat self = ''phase'' then
               atan2 (elems (conv_imag self x) [b, k, 0, nat ?c + t, s])
                     (elems (conv_real self x) [b, k, 0, nat ?c + t, s])
             else if k < n_channels self x then
               elems (conv_real self x) [b, k, 0, nat ?c + t, s]
             else elems (conv_imag self x) [b, k - n_channels self x, 0, nat ?c + t, s])"
    if t: "t < shape y ! time_axis self" for b t s k
  proof -
    have le: "crop_of self \<le> int ?L" using t c unfolding ty by simp
    have le0: "crop_of ?self0 \<le> int (same_out_len (time_in ?self0 x) (nat (stride ?self0)))"
      unfolding c0 by simp
    have z0: "0 \<le> crop_of ?self0" unfolding c0 by simp
    have a: "elems y (out_index self b t s k) =
            (if outputformat self = ''magnitude'' then
               sqrt ((elems (conv_real self x) [b, k, 0, nat ?c + t, s])\<^sup>2
                     + (elems (conv_imag self x) [b, k, 0, nat ?c + t, s])\<^sup>2)
             else if outputformat self = ''phase'' then
               atan2 (elems (conv_imag self x) [b, k, 0, nat ?c + t, s])
                     (elems (conv_real self x) [b, k, 0, nat ?c + t, s])
             else if k < n_channels self x then
               elems (conv_real self x) [b, k, 0, nat ?c + t, s]
             else elems (conv_imag self x) [b, k - n_channels self x, 0, nat ?c + t, s])"
      using call_elems[OF assms(1,2) c le y, of b t s k] unfolding cd .
    have b: "elems y0 (out_index self b (nat ?c + t) s k) =
            (if outputformat self = ''magnitude'' then
               sqrt ((elems (conv_real self x) [b, k, 0, nat ?c + t, s])\<^sup>2
                     + (elems (conv_imag self x) [b, k, 0, nat ?c + t, s])\<^sup>2)
             else if outputformat self = ''phase'' then
               atan2 (elems (conv_imag self x) [b, k, 0, nat ?c + t, s])
                     (elems (conv_real self x) [b, k, 0, nat ?c + t, s])
             else if k < n_channels self x then
               elems (conv_real self x) [b, k, 0, nat ?c + t, s]
             else elems (conv_imag self x) [b, k - n_channels self x, 0, nat ?c + t, s])"
      using call_elems[OF assms(1) s0(1) z0 le0 y0, of b "nat ?c + t" s k]
      by (simp add: c0 layout_border_crop border_crop_update)
    from a b show ?thesis by simp
  qed
  have 6: "?c = 0 \<longrightarrow> y = y0"
    using call_zero_crop[of self x] y y0 by auto
  have 7: "stride self = 1 \<and> border_crop self = 0 \<longrightarrow> shape y ! time_axis self = time_in self x"
    using 4 by auto
  have 8: "stride self = 1 \<and> 2 * border_crop self \<le> int (time_in self x) \<longrightarrow>
          int (shape y ! time_axis self) = int (time_in self x) - 2 * border_crop self"
    using 4 by auto
  from y y0 1 2 3 4 5 6 7 8 show ?thesis by blast
qed

section \<open>Witnesses on concrete layers\<close>

lemma sqrt25: "sqrt 25 = 5"
  by (rule real_sqrt_unique) simp_all

lemma sqrt9: "sqrt 9 = 3"
  by (rule real_sqrt_unique) simp_all

theorem scale_generation_witness:
  "\<exists>self. ComplexMorletCWT_init 1 100 1 25 3 1 False 0 1 ''ComplexMorletCWT'' ''complex''
             ''channels_last'' = Inr self
     \<and> scales self = [1 / 25, 1 / 5, 1] \<and> frequencies self = [25, 5, 1]"
proof -
  have b: "((1 / 1) / (1 / 25)) powr (1 / real_of_int (3 - 1)) = (5::real)"
    using powr_half_sqrt[of 25] sqrt25 by simp
  have u: "[0..<nat 3] = [0, 1, 2]" by (simp add: eval_nat_numeral upt_rec)
  obtain self where
    i: "ComplexMorletCWT_init 1 100 1 25 3 1 False 0 1 ''ComplexMorletCWT'' ''complex''
             ''channels_last'' = Inr self"
    and s: "scales self =
         map (\<lambda>i. 1 / 25 * (((1 / 1) / (1 / 25)) powr (1 / real_of_int (3 - 1))) ^ i) [0..<nat 3]"
    and f: "frequencies self = map (\<lambda>s. 1 / s) (scales self)"
    using scale_generation[of 1 25 3 1 "''complex''" "''channels_last''" 100 1 False 0 1
        "''ComplexMorletCWT''"]
    by auto
  have "scales self = [1 / 25, 1 / 5, 1]" unfolding s b u by simp
  then show ?thesis using i f by simp
qed

lemma example_fields:
  "initial_wavelet_width example_params = 2" "fs example_params = 100"
  "size_factor example_params = 1" "scales example_params = [1 / 25, 1 / 5, 1]"
  "wavelet_width example_params = 1 / 2"
  by (simp_all add: example_params_def)

lemma example_truncation_size: "truncation_size example_params = 300"
  by (simp add: truncation_size_def example_fields sqrt9)

lemma example_one_side: "one_side example_params = 300"
  by (simp add: one_side_def example_truncation_size example_fields py_int_def)

lemma example_build:
  "\<exists>re im. build_wavelet_bank example_params = Inr (re, im)"
  by (rule build_wavelet_bank_succeeds) (simp_all add: example_params_def)

theorem bank_formula_witness:
  "\<exists>re im. build_wavelet_bank example_params = Inr (re, im)
     \<and> elems re [0, 400, 0, 2] = exp (- 2) / (sqrt (pi / 2) * 50)
     \<and> elems im [0, 400, 0, 2] = 0"
proof -
  obtain re im where b: "build_wavelet_bank example_params = Inr (re, im)"
    using example_build by blast
  have p: "fs example_params = 100" "scales example_params ! 2 = 1"
    "wavelet_width example_params = 1 / 2" "length (scales example_params) = 3"
    by (simp_all add: example_fields)
  have "elems re [0, nat (one_side example_params + 100), 0, 2] =
           exp (- ((1 / 1)\<^sup>2) / wavelet_width example_params)
             / (sqrt (pi * wavelet_width example_params) * 1 * fs example_params / 2)
             * cos (2 * pi * (1 / 1))
       \<and> elems im [0, nat (one_side example_params + 100), 0, 2] =
           exp (- ((1 / 1)\<^sup>2) / wavelet_width example_params)
             / (sqrt (pi * wavelet_width example_params) * 1 * fs example_params / 2)
             * sin (2 * pi * (1 / 1))"
    by (rule bank_formula[OF b]) (simp_all add: example_one_side p)
  then show ?thesis using b by (simp add: example_one_side p)
qed

theorem kernel_support_witness:
  "(\<exists>re im. build_wavelet_bank (example_params\<lparr>wavelet_width := 5\<rparr>) = Inr (re, im)
      \<and> shape re = [1, 601, 1, 3] \<and> shape im = [1, 601, 1, 3])
   \<and> truncation_size example_params = 300 \<and> one_side example_params = 300
   \<and> kernel_size example_params = 601"
proof -
  have k: "kernel_size example_params = 601"
    by (simp add: kernel_size_def example_one_side)
  have h: "scales example_params \<noteq> []" "\<forall>s\<in>set (scales example_params). 0 < s"
    "0 < fs example_params" "0 < initial_wavelet_width example_params"
    "1 \<le> size_factor example_params"
    by (simp_all add: example_fields)
  show ?thesis
    using kernel_support[OF h, of 5]
    by (simp add: k example_truncation_size example_one_side example_fields numeral_3_eq_3)
qed

theorem bank_symmetry_witness:
  "\<exists>re im. build_wavelet_bank example_params = Inr (re, im)
     \<and> elems re [0, 307, 0, 0] = elems re [0, 293, 0, 0]
     \<and> elems im [0, 307, 0, 0] = - elems im [0, 293, 0, 0]"
proof -
  obtain re im where b: "build_wavelet_bank example_params = Inr (re, im)"
    using example_build by blast
  have "elems re [0, nat (one_side example_params + 7), 0, 0]
          = elems re [0, nat (one_side example_params - 7), 0, 0]
       \<and> elems im [0, nat (one_side example_params + 7), 0, 0]
          = - elems im [0, nat (one_side example_params - 7), 0, 0]"
    by (rule bank_symmetry[OF b]) (simp_all add: example_one_side example_fields)
  then show ?thesis using b by (simp add: example_one_side)
qed

theorem bank_center_tap_witness:
  "\<exists>re im. build_wavelet_bank example_params = Inr (re, im)
     \<and> elems im [0, 300, 0, 1] = 0
     \<and> elems re [0, 300, 0, 1] = 2 / (sqrt (pi / 2) * 20)
     \<and> 0 < elems re [0, 300, 0, 1]"
proof -
  obtain re im where b: "build_wavelet_bank example_params = Inr (re, im)"
    using example_build by blast
  have p: "fs example_params = 100" "scales example_params ! 1 = 1 / 5"
    "wavelet_width example_params = 1 / 2" "length (scales example_params) = 3"
    by (simp_all add: example_fields)
  have q: "0 < scales example_params ! 1" unfolding p by simp
  have r: "scales example_params ! Suc 0 = 1 / 5" by (simp add: example_fields)
  have "elems im [0, nat (one_side example_params), 0, 1] = 0
       \<and> elems re [0, nat (one_side example_params), 0, 1]
           = 2 / (sqrt (pi * wavelet_width example_params) * (scales example_params ! 1)
                    * fs example_params)
       \<and> 0 < elems re [0, nat (one_side example_params), 0, 1]"
    by (rule bank_center_tap[OF b _ _ _ q]) (simp_all add: example_one_side p)
  then show ?thesis using b by (simp add: example_one_side p r)
qed

theorem construction_errors_witness:
  "(\<exists>m. ComplexMorletCWT_init 1 100 3 2 4 1 False 0 1 ''ComplexMorletCWT'' ''complex''
          ''channels_last'' = Inl (ValueError m))
   \<and> isl (ComplexMorletCWT_init 1 100 1 25 1 1 False 0 1 ''ComplexMorletCWT'' ''complex''
          ''channels_last'')
   \<and> (\<exists>self. ComplexMorletCWT_init 1 100 1 25 3 1 False 0 1 ''ComplexMorletCWT'' ''complex''
          ''channels_last'' = Inr self \<and> fs self = 100)"
  using construction_errors[of 2 3 "''complex''" "''channels_last''" 1 100 4 1 False 0 1
      "''ComplexMorletCWT''"]
    construction_errors[of 25 1 "''complex''" "''channels_last''" 1 100 1 1 False 0 1
      "''ComplexMorletCWT''"]
    construction_errors[of 25 1 "''complex''" "''channels_last''" 1 100 3 1 False 0 1
      "''ComplexMorletCWT''"]
  by simp

text \<open>
  Claim C8 as stated fails: the constructor accepts the sampling frequency \<open>- 1\<close>. It
  returns a layer, whose kernel size is then negative, so that its bank has no taps.
\<close>

theorem nonpositive_fs_accepted:
  "(case ComplexMorletCWT_init 2 (- 1) 1 25 3 1 False 0 1 ''ComplexMorletCWT'' ''complex''
           ''channels_last'' of
      Inl e \<Rightarrow> False
    | Inr self \<Rightarrow> fs self = - 1 \<and> kernel_size self = - 5)"
proof -
  let ?sc = "map (\<lambda>i. 1 / 25 * (((1 / 1) / (1 / 25)) powr (1 / real_of_int (3 - 1))) ^ i) [0..<nat 3]"
  let ?p = "\<lparr>initial_wavelet_width = 2, fs = - 1, lower_freq = 1, upper_freq = 25,
        size_factor = 1, trainable = False, scales = ?sc,
        frequencies = map (\<lambda>s. 1 / s) ?sc, wavelet_width = 2\<rparr>"
  have b: "((1 / 1) / (1 / 25)) powr (1 / real_of_int (3 - 1)) = (5::real)"
    using powr_half_sqrt[of 25] sqrt25 by simp
  have u: "[0..<nat 3] = [0, 1, 2]" by (simp add: eval_nat_numeral upt_rec)
  have sc: "?sc = [1 / 25, 1 / 5, 1]" unfolding b u by simp
  have i: "ComplexMorletCWT_init 2 (- 1) 1 25 3 1 False 0 1 ''ComplexMorletCWT'' ''complex''
           ''channels_last'' =
      ContinuousWaveletTransform_init ?p 3 0 1 ''ComplexMorletCWT'' ''complex'' ''channels_last''"
    by (rule init_checked) simp_all
  have "scales ?p \<noteq> []" unfolding sc by simp
  moreover have "0 \<le> initial_wavelet_width ?p" by simp
  ultimately obtain self where
    s: "ContinuousWaveletTransform_init ?p 3 0 1 ''ComplexMorletCWT'' ''complex''
          ''channels_last'' = Inr self"
    and t: "morlet_params.truncate self = ?p"
    using base_init_Inr[of ?p 3 0 1 "''ComplexMorletCWT''" "''complex''" "''channels_last''"]
    by blast
  have f: "fs self = - 1" "scales self = [1 / 25, 1 / 5, 1]" "initial_wavelet_width self = 2"
    "size_factor self = 1"
    using arg_cong[OF t, of fs] arg_cong[OF t, of scales]
      arg_cong[OF t, of initial_wavelet_width] arg_cong[OF t, of size_factor] sc
    by (simp_all add: morlet_params.truncate_def)
  have "truncation_size self = - 3"
    by (simp add: truncation_size_def f sqrt9)
  then have "kernel_size self = - 5"
    by (simp add: kernel_size_def one_side_def py_int_def f)
  then show ?thesis unfolding i s using f by simp
qed

lemma kernel_truncate:
  "kernel_real (morlet_params.truncate self) = kernel_real self"
  "kernel_imag (morlet_params.truncate self) = kernel_imag self"
  by (rule ext, simp add: morlet_params.truncate_def kernel_real_def kernel_imag_def
      kernel_base_def norm_constant_def t_array_def k_array_def kernel_size_def one_side_def
      truncation_size_def)+

lemma build_wavelet_bank_truncate:
  "build_wavelet_bank (morlet_params.truncate self) = build_wavelet_bank self"
  unfolding build_wavelet_bank_def kernel_truncate
  by (simp add: morlet_params.truncate_def)

lemma example_layer_init:
  "ComplexMorletCWT_init 2 100 1 25 3 1 True 10 1 ''ComplexMorletCWT'' ''complex''
     ''channels_last'' = Inr example_layer"
proof -
  obtain self where "ComplexMorletCWT_init 2 100 1 25 3 1 True 10 1 ''ComplexMorletCWT''
      ''complex'' ''channels_last'' = Inr self"
    using init_succeeds[of 1 25 3 2 "''complex''" "''channels_last''" 100 1 True 10 1
        "''ComplexMorletCWT''"]
    by auto
  then show ?thesis by (simp add: example_layer_def)
qed

lemma example_layer_fields:
  "initial_wavelet_width example_layer = 2" "wavelet_width example_layer = 2"
  "fs example_layer = 100" "size_factor example_layer = 1"
  "scales example_layer = [1 / 25, 1 / 5, 1]"
  "stride example_layer = 1" "border_crop example_layer = 10"
  "outputformat example_layer = ''complex''" "data_format example_layer = ''channels_last''"
  "build_wavelet_bank example_layer = Inr (real_part example_layer, imaginary_part example_layer)"
  "morlet_params.truncate (example_layer\<lparr>wavelet_width := 1 / 2\<rparr>) = example_params"
proof -
  let ?sc = "map (\<lambda>i. 1 / 25 * (((1 / 1) / (1 / 25)) powr (1 / real_of_int (3 - 1))) ^ i) [0..<nat 3]"
  let ?p = "\<lparr>initial_wavelet_width = 2, fs = 100, lower_freq = 1, upper_freq = 25,
        size_factor = 1, trainable = True, scales = ?sc,
        frequencies = map (\<lambda>s. 1 / s) ?sc, wavelet_width = 2\<rparr>"
  have b: "((1 / 1) / (1 / 25)) powr (1 / real_of_int (3 - 1)) = (5::real)"
    using powr_half_sqrt[of 25] sqrt25 by simp
  have u: "[0..<nat 3] = [0, 1, 2]" by (simp add: eval_nat_numeral upt_rec)
  have sc: "?sc = [1 / 25, 1 / 5, 1]" unfolding b u by simp
  have i: "ComplexMorletCWT_init 2 100 1 25 3 1 True 10 1 ''ComplexMorletCWT'' ''complex''
           ''channels_last'' =
      ContinuousWaveletTransform_init ?p 3 10 1 ''ComplexMorletCWT'' ''complex'' ''channels_last''"
    by (rule init_checked) simp_all
  have "scales ?p \<noteq> []" unfolding sc by simp
  moreover have "0 \<le> initial_wavelet_width ?p" by simp
  ultimately obtain self where
    s: "ContinuousWaveletTransform_init ?p 3 10 1 ''ComplexMorletCWT'' ''complex''
          ''channels_last'' = Inr self"
    and t: "morlet_params.truncate self = ?p"
    and f: "border_crop self = 10" "stride self = 1" "outputformat self = ''complex''"
      "data_format self = ''channels_last''"
    and bb: "build_wavelet_bank ?p = Inr (real_part self, imaginary_part self)"
    using base_init_Inr[of ?p 3 10 1 "''ComplexMorletCWT''" "''complex''" "''channels_last''"]
    by blast
  have e: "self = example_layer" using i s example_layer_init by simp
  show "initial_wavelet_width example_layer = 2" "wavelet_width example_layer = 2"
    "fs example_layer = 100" "size_factor example_layer = 1"
    "scales example_layer = [1 / 25, 1 / 5, 1]"
    using arg_cong[OF t, of initial_wavelet_width] arg_cong[OF t, of wavelet_width]
      arg_cong[OF t, of fs] arg_cong[OF t, of size_factor] arg_cong[OF t, of scales] sc
    unfolding e by (simp_all add: morlet_params.truncate_def)
  show "stride example_layer = 1" "border_crop example_layer = 10"
    "outputformat example_layer = ''complex''" "data_format example_layer = ''channels_last''"
    using f unfolding e by simp_all
  show "build_wavelet_bank example_layer = Inr (real_part example_layer, imaginary_part example_layer)"
    using bb build_wavelet_bank_truncate[of self] unfolding t[symmetric] e by simp
  show "morlet_params.truncate (example_layer\<lparr>wavelet_width := 1 / 2\<rparr>) = example_params"
    using t[unfolded sc] unfolding e
    by (simp add: morlet_params.truncate_def example_params_def)
qed

lemma example_signal_shape: "shape example_signal = [1, 128, 1]"
  by (simp add: example_signal_def)

lemma example_layout:
  "time_in example_layer example_signal = 128" "time_axis example_layer = 1"
  "n_channels example_layer example_signal = 1" "channel_axis example_layer = 3"
  "out_index example_layer b t s ch = [b, t, s, ch]"
  by (simp_all add: time_in_def time_axis_def n_channels_def channel_axis_def out_index_def
      example_layer_fields example_signal_shape)

theorem call_crops_both_ends_witness:
  "(\<exists>y y0. call example_layer example_signal = Inr y
      \<and> call (example_layer\<lparr>border_crop := 0\<rparr>) example_signal = Inr y0
      \<and> int (shape (conv_real example_layer example_signal) ! 3) = 128
      \<and> int (shape (conv_imag example_layer example_signal) ! 3) = 128
      \<and> int (shape y0 ! 1) = 128
      \<and> int (shape y ! 1) = 108
      \<and> elems y [0, 5, 2, 0] = elems y0 [0, 15, 2, 0]
      \<and> elems y [0, 5, 2, 0] = elems (conv_real example_layer example_signal) [0, 0, 0, 15, 2]
      \<and> elems y [0, 5, 2, 1] = elems (conv_imag example_layer example_signal) [0, 0, 0, 15, 2])
   \<and> (\<exists>y y0. call (example_layer\<lparr>stride := 3\<rparr>) example_signal = Inr y
      \<and> call (example_layer\<lparr>stride := 3, border_crop := 0\<rparr>) example_signal = Inr y0
      \<and> int (shape (conv_real (example_layer\<lparr>stride := 3\<rparr>) example_signal) ! 3) = 43
      \<and> int (shape y ! 1) = 37
      \<and> elems y [0, 5, 2, 0] = elems y0 [0, 8, 2, 0])"
proof -
  let ?L = example_layer and ?x = example_signal
  let ?c = "border_crop ?L div stride ?L"
  have h: "shape ?x = [1, 128, 1]" "0 < stride ?L" "0 \<le> border_crop ?L"
    by (simp_all add: example_signal_shape example_layer_fields)
  from call_crops_both_ends[OF h] obtain y y0 where
    c: "call ?L ?x = Inr y" "call (?L\<lparr>border_crop := 0\<rparr>) ?x = Inr y0"
    and s: "int (shape (conv_real ?L ?x) ! 3) = \<lceil>real (time_in ?L ?x) / real_of_int (stride ?L)\<rceil>"
      "int (shape (conv_imag ?L ?x) ! 3) = \<lceil>real (time_in ?L ?x) / real_of_int (stride ?L)\<rceil>"
      "int (shape y0 ! time_axis ?L) = \<lceil>real (time_in ?L ?x) / real_of_int (stride ?L)\<rceil>"
      "int (shape y ! time_axis ?L) =
         max 0 (\<lceil>real (time_in ?L ?x) / real_of_int (stride ?L)\<rceil> - 2 * ?c)"
    and e: "\<forall>b t s k. t < shape y ! time_axis ?L \<longrightarrow>
           elems y (out_index ?L b t s k) = elems y0 (out_index ?L b (nat ?c + t) s k)
         \<and> elems y (out_index ?L b t s k) =
            (if outputformat ?L = ''magnitude'' then
               sqrt ((elems (conv_real ?L ?x) [b, k, 0, nat ?c + t, s])\<^sup>2
                     + (elems (conv_imag ?L ?x) [b, k, 0, nat ?c + t, s])\<^sup>2)
             else if outputformat ?L = ''phase'' then
               atan2 (elems (conv_imag ?L ?x) [b, k, 0, nat ?c + t, s])
                     (elems (conv_real ?L ?x) [b, k, 0, nat ?c + t, s])
             else if k < n_channels ?L ?x then
               elems (conv_real ?L ?x) [b, k, 0, nat ?c + t, s]
             else elems (conv_imag ?L ?x) [b, k - n_channels ?L ?x, 0, nat ?c + t, s])"
    by blast
  have s': "int (shape (conv_real ?L ?x) ! 3) = 128" "int (shape (conv_imag ?L ?x) ! 3) = 128"
    "int (shape y0 ! 1) = 128" "int (shape y ! 1) = 108"
    using s by (simp_all add: example_layout example_layer_fields)
  have t: "5 < shape y ! time_axis ?L" using s'(4) by (simp add: example_layout)
  have e0: "elems y [0, 5, 2, 0] = elems y0 [0, 15, 2, 0]"
    "elems y [0, 5, 2, 0] = elems (conv_real ?L ?x) [0, 0, 0, 15, 2]"
    using e[rule_format, OF t, of 0 2 0]
    by (simp_all add: example_layout example_layer_fields)
  have e1: "elems y [0, 5, 2, 1] = elems (conv_imag ?L ?x) [0, 0, 0, 15, 2]"
    using e[rule_format, OF t, of 0 2 1]
    by (simp add: example_layout example_layer_fields)
  have 1: "\<exists>y y0. call ?L ?x = Inr y
      \<and> call (?L\<lparr>border_crop := 0\<rparr>) ?x = Inr y0
      \<and> int (shape (conv_real ?L ?x) ! 3) = 128
      \<and> int (shape (conv_imag ?L ?x) ! 3) = 128
      \<and> int (shape y0 ! 1) = 128
      \<and> int (shape y ! 1) = 108
      \<and> elems y [0, 5, 2, 0] = elems y0 [0, 15, 2, 0]
      \<and> elems y [0, 5, 2, 0] = elems (conv_real ?L ?x) [0, 0, 0, 15, 2]
      \<and> elems y [0, 5, 2, 1] = elems (conv_imag ?L ?x) [0, 0, 0, 15, 2]"
    using c s' e0 e1 by blast
  let ?M = "example_layer\<lparr>stride := 3\<rparr>"
  let ?d = "border_crop ?M div stride ?M"
  have h3: "0 < stride ?M" "0 \<le> border_crop ?M"
    by (simp_all add: example_layer_fields)
  have l3: "time_in ?M ?x = 128" "time_axis ?M = 1" "out_index ?M b t s k = [b, t, s, k]"
    "stride ?M = 3" "border_crop ?M = 10" for b t s k
    by (simp_all add: time_in_def time_axis_def out_index_def example_layer_fields
        example_signal_shape)
  have cl: "\<lceil>(128::real) / 3\<rceil> = 43" by (rule ceiling_unique) simp_all
  from call_crops_both_ends[OF h(1) h3] obtain z z0 where
    c3: "call ?M ?x = Inr z" "call (?M\<lparr>border_crop := 0\<rparr>) ?x = Inr z0"
    and s3: "int (shape (conv_real ?M ?x) ! 3) = \<lceil>real (time_in ?M ?x) / real_of_int (stride ?M)\<rceil>"
      "int (shape z ! time_axis ?M) =
         max 0 (\<lceil>real (time_in ?M ?x) / real_of_int (stride ?M)\<rceil> - 2 * ?d)"
    and e3: "\<forall>b t s k. t < shape z ! time_axis ?M \<longrightarrow>
           elems z (out_index ?M b t s k) = elems z0 (out_index ?M b (nat ?d + t) s k)
         \<and> elems z (out_index ?M b t s k) =
            (if outputformat ?M = ''magnitude'' then
               sqrt ((elems (conv_real ?M ?x) [b, k, 0, nat ?d + t, s])\<^sup>2
                     + (elems (conv_imag ?M ?x) [b, k, 0, nat ?d + t, s])\<^sup>2)
             else if outputformat ?M = ''phase'' then
               atan2 (elems (conv_imag ?M ?x) [b, k, 0, nat ?d + t, s])
                     (elems (conv_real ?M ?x) [b, k, 0, nat ?d + t, s])
             else if k < n_channels ?M ?x then
               elems (conv_real ?M ?x) [b, k, 0, nat ?d + t, s]
             else elems (conv_imag ?M ?x) [b, k - n_channels ?M ?x, 0, nat ?d + t, s])"
    by blast
  have s3': "int (shape (conv_real ?M ?x) ! 3) = 43" "int (shape z ! 1) = 37"
    using s3 unfolding l3 cl by simp_all
  have t3: "5 < shape z ! time_axis ?M" using s3'(2) unfolding l3 by simp
  have d: "nat ?d = 3" unfolding l3 by simp
  have e3': "elems z [0, 5, 2, 0] = elems z0 [0, 8, 2, 0]"
    using e3[rule_format, OF t3, of 0 2 0] unfolding l3 d by simp
  have 2: "\<exists>y y0. call ?M ?x = Inr y
      \<and> call (example_layer\<lparr>stride := 3, border_crop := 0\<rparr>) ?x = Inr y0
      \<and> int (shape (conv_real ?M ?x) ! 3) = 43
      \<and> int (shape y ! 1) = 37
      \<and> elems y [0, 5, 2, 0] = elems y0 [0, 8, 2, 0]"
    using c3 s3' e3' by blast
  from 1 2 show ?thesis by blast
qed

theorem output_modes_agree_witness:
  "\<exists>yc ym yp.
       call (example_layer\<lparr>outputformat := ''complex''\<rparr>) example_signal = Inr yc
     \<and> call (example_layer\<lparr>outputformat := ''magnitude''\<rparr>) example_signal = Inr ym
     \<and> call (example_layer\<lparr>outputformat := ''phase''\<rparr>) example_signal = Inr yp
     \<and> elems ym [0, 5, 2, 0] = sqrt ((elems yc [0, 5, 2, 0])\<^sup>2 + (elems yc [0, 5, 2, 1])\<^sup>2)
     \<and> elems yp [0, 5, 2, 0] = atan2 (elems yc [0, 5, 2, 1]) (elems yc [0, 5, 2, 0])
     \<and> shape yc ! 3 = 2 \<and> shape ym ! 3 = 1 \<and> shape yp ! 3 = 1"
proof -
  have h: "shape example_signal = [1, 128, 1]" "0 < stride example_layer"
    "0 < n_channels example_layer example_signal"
    by (simp_all add: example_signal_shape example_layer_fields example_layout)
  show ?thesis
    using output_modes_agree[OF h, of 0 5 2]
    by (simp add: example_layout)
qed

text \<open>
  Claim C1 on the code. The constructor builds the bank once and stores it
  (\<^verbatim>\<open>self.real_part, self.imaginary_part = self._build_wavelet_bank()\<close>), and \<open>call\<close>
  convolves with the stored bank. After the wavelet width of the example layer has been
  set from 2 to \<open>1 / 2\<close>, every call returns what it returned before; the bank in use is
  the one built at construction, with centre tap \<open>2 / (sqrt (pi * 2) * 1 * 100)\<close> in the
  column of scale 1, while a bank rebuilt from the current width has
  \<open>2 / (sqrt (pi * (1 / 2)) * 1 * 100)\<close> there.
\<close>

theorem call_uses_bank_of_construction:
  "(let self' = example_layer\<lparr>wavelet_width := 1 / 2\<rparr> in
      (\<forall>x. call self' x = call example_layer x)
    \<and> build_wavelet_bank example_layer = Inr (real_part self', imaginary_part self')
    \<and> elems (real_part self') [0, 300, 0, 2] = 2 / (sqrt (pi * 2) * 1 * 100)
    \<and> (\<exists>re im. build_wavelet_bank self' = Inr (re, im)
          \<and> elems re [0, 300, 0, 2] = 2 / (sqrt (pi * (1 / 2)) * 1 * 100)
          \<and> elems re [0, 300, 0, 2] \<noteq> elems (real_part self') [0, 300, 0, 2]))"
proof -
  let ?self' = "example_layer\<lparr>wavelet_width := 1 / 2\<rparr>"
  have os: "one_side example_layer = 300" "one_side ?self' = 300"
    by (simp_all add: one_side_def truncation_size_def example_layer_fields py_int_def sqrt9)
  have b0: "build_wavelet_bank example_layer = Inr (real_part ?self', imaginary_part ?self')"
    using example_layer_fields(10) by simp
  have c0: "elems (real_part ?self') [0, nat (one_side example_layer), 0, 2]
        = 2 / (sqrt (pi * wavelet_width example_layer) * (scales example_layer ! 2)
                 * fs example_layer)"
    using center_tap_real[OF b0, of 2] by (simp add: os example_layer_fields)
  obtain re im where b1: "build_wavelet_bank ?self' = Inr (re, im)"
    using build_wavelet_bank_succeeds[of ?self'] by (auto simp: example_layer_fields)
  have c1: "elems re [0, nat (one_side ?self'), 0, 2]
        = 2 / (sqrt (pi * wavelet_width ?self') * (scales ?self' ! 2) * fs ?self')"
    using center_tap_real[OF b1, of 2] by (simp add: os example_layer_fields)
  have v0: "elems (real_part ?self') [0, 300, 0, 2] = 2 / (sqrt (pi * 2) * 1 * 100)"
    using c0 by (simp add: os example_layer_fields)
  have v1: "elems re [0, 300, 0, 2] = 2 / (sqrt (pi * (1 / 2)) * 1 * 100)"
    using c1 by (simp add: os example_layer_fields)
  have ne: "elems re [0, 300, 0, 2] \<noteq> elems (real_part ?self') [0, 300, 0, 2]"
    unfolding v0 v1 by simp
  show ?thesis
    unfolding Let_def using call_ignores_wavelet_width b0 v0 b1 v1 ne by blast
qed

lemma base_init_border_crop:
  "ContinuousWaveletTransform_init p n bc st nm out df = Inr self \<Longrightarrow>
   ContinuousWaveletTransform_init p n bc' st nm out df = Inr (self\<lparr>border_crop := bc'\<rparr>)"
  by (auto simp: ContinuousWaveletTransform_init_def morlet_params.extend_def
      ComplexMorletCWT.fields_def split: sum.splits prod.splits)

lemma init_border_crop:
  assumes "ComplexMorletCWT_init ww f lo up n sf tr bc st nm out df = Inr self"
  shows "ComplexMorletCWT_init ww f lo up n sf tr bc' st nm out df = Inr (self\<lparr>border_crop := bc'\<rparr>)"
proof -
  let ?sc = "map (\<lambda>i. 1 / up * (((1 / lo) / (1 / up)) powr (1 / real_of_int (n - 1))) ^ i) [0..<nat n]"
  let ?p = "\<lparr>initial_wavelet_width = ww, fs = f, lower_freq = lo, upper_freq = up,
        size_factor = sf, trainable = tr, scales = ?sc,
        frequencies = map (\<lambda>s. 1 / s) ?sc, wavelet_width = ww\<rparr>"
  have c: "\<not> lo > up" "\<not> lo < 0" "\<not> out \<notin> set [''complex'', ''magnitude'', ''phase'']"
    "\<not> df \<notin> set [''channels_last'', ''channels_first'']" "\<not> up = 0" "\<not> lo = 0"
    "\<not> n - 1 = 0"
    using assms unfolding ComplexMorletCWT_init_def by (auto split: if_splits)
  have e: "ComplexMorletCWT_init ww f lo up n sf tr b st nm out df =
      ContinuousWaveletTransform_init ?p n b st nm out df" for b
    unfolding ComplexMorletCWT_init_def Let_def using c by (simp only: if_False)
  show ?thesis
    using assms unfolding e by (rule base_init_border_crop)
qed

text \<open>
  Claim C5 as stated fails: with stride 1 and a border crop of 3 on a signal of 4 samples
  the output has no time step, while \<open>time_in - 2 * B\<close> is \<open>- 2\<close>.
\<close>

theorem border_crop_exceeding_signal:
  "(case ComplexMorletCWT_init 2 100 1 25 3 1 True 3 1 ''ComplexMorletCWT'' ''complex''
           ''channels_last'' of
      Inl e \<Rightarrow> False
    | Inr self \<Rightarrow>
        (case call self short_signal of
           Inl e \<Rightarrow> False
         | Inr y \<Rightarrow>
             stride self = 1 \<and> border_crop self = 3 \<and> time_in self short_signal = 4
             \<and> shape y ! time_axis self = 0
             \<and> int (shape y ! time_axis self)
                 \<noteq> int (time_in self short_signal) - 2 * border_crop self))"
proof -
  let ?self = "example_layer\<lparr>border_crop := 3\<rparr>"
  have i: "ComplexMorletCWT_init 2 100 1 25 3 1 True 3 1 ''ComplexMorletCWT'' ''complex''
           ''channels_last'' = Inr ?self"
    by (rule init_border_crop[OF example_layer_init])
  have f: "stride ?self = 1" "border_crop ?self = 3" "data_format ?self = ''channels_last''"
    by (simp_all add: example_layer_fields)
  have sh: "shape short_signal = [1, 4, 1]" by (simp add: short_signal_def)
  have ti: "time_in ?self short_signal = 4" "time_axis ?self = 1"
    by (simp_all add: time_in_def time_axis_def f sh)
  obtain y where y: "call ?self short_signal = Inr y"
    and t: "shape y ! time_axis ?self =
      nat (int (same_out_len (time_in ?self short_signal) (nat (stride ?self))) - 2 * crop_of ?self)"
    using call_time_axis[OF sh, of ?self] f by auto
  have "shape y ! time_axis ?self = 0"
    unfolding t by (simp add: ti f crop_of_def same_out_len_def)
  then show ?thesis unfolding i using y f ti by simp
qed

end
